theory Spec2Isabelle
  imports Main "HOL-Library.Word"
begin

section \<open>The StateChannel contract (ERC-7824 payment channels)\<close>

text \<open>
  A shallow embedding of the Solidity contract \<^verbatim>\<open>StateChannel\<close> and of its interface
  \<^verbatim>\<open>IERC7824\<close>. Storage is a record that every operation takes and returns; a revert is
  the left summand of \<open>error + 'a\<close> and, as on the EVM, leaves no trace: the caller keeps
  the state it had before the call. Solidity 0.8 arithmetic is checked, so an addition that
  leaves the range of \<^verbatim>\<open>uint256\<close> is the error \<open>Panic\<close>. Events are not modelled.
\<close>

subsection \<open>Value types\<close>

type_synonym address = "160 word"
type_synonym bytes32 = "256 word"
type_synonym uint256 = "256 word"
type_synonym bytes = "8 word list"

record ChannelData =
  participant1 :: address
  participant2 :: address
  balance1 :: uint256
  balance2 :: uint256
  nonce :: uint256
  timeout :: uint256
  isActive :: bool

text \<open>
  The fields of \<^verbatim>\<open>StateUpdate\<close> that share a name with a field of \<^verbatim>\<open>ChannelData\<close> carry
  the prefix \<open>upd_\<close>.
\<close>

record StateUpdate =
  channelId :: bytes32
  upd_nonce :: uint256
  upd_balance1 :: uint256
  upd_balance2 :: uint256
  signature1 :: bytes
  signature2 :: bytes

text \<open>The revert reasons of the contract and of the library code it inherits.\<close>

datatype error =
    NotParticipant            \<comment> \<open>"Not a channel participant"\<close>
  | ChannelInactive           \<comment> \<open>"Channel not active"\<close>
  | ChannelInDispute          \<comment> \<open>"Channel in dispute"\<close>
  | ParticipantsNotDifferent  \<comment> \<open>"Participants must be different"\<close>
  | InvalidParticipants       \<comment> \<open>"Invalid participants"\<close>
  | InvalidTimeout            \<comment> \<open>"Invalid timeout"\<close>
  | InsufficientFunds         \<comment> \<open>"Insufficient funds"\<close>
  | InvalidNonce              \<comment> \<open>"Invalid nonce"\<close>
  | InvalidBalanceSum         \<comment> \<open>"Invalid balance sum"\<close>
  | InvalidSignature1         \<comment> \<open>"Invalid signature from participant1"\<close>
  | InvalidSignature2         \<comment> \<open>"Invalid signature from participant2"\<close>
  | AlreadyInDispute          \<comment> \<open>"Already in dispute"\<close>
  | NoActiveDispute           \<comment> \<open>"No active dispute"\<close>
  | DisputeTimeoutExceeded    \<comment> \<open>"Dispute timeout exceeded"\<close>
  | DisputePeriodNotEnded     \<comment> \<open>"Dispute period not ended"\<close>
  | UnauthorizedRelayer       \<comment> \<open>"Unauthorized relayer"\<close>
  | InvalidRelayerSignature   \<comment> \<open>"Invalid relayer signature"\<close>
  | NoFeesToWithdraw          \<comment> \<open>"No fees to withdraw"\<close>
  | ChannelStillActive        \<comment> \<open>"Channel still active"\<close>
  | NotOwner                  \<comment> \<open>Ownable: "Ownable: caller is not the owner"\<close>
  | ReentrantCall             \<comment> \<open>ReentrancyGuard: "ReentrancyGuard: reentrant call"\<close>
  | ECDSAInvalidSignature     \<comment> \<open>ECDSA.recover rejects the signature bytes\<close>
  | Panic                     \<comment> \<open>checked arithmetic left the range of uint256\<close>
  | TransferFailed            \<comment> \<open>\<^verbatim>\<open>transfer\<close> reverted: not enough ether, or the recipient refused\<close>
  | CallerCannotPay           \<comment> \<open>the caller does not own the \<^verbatim>\<open>msg.value\<close> it sends\<close>

subsection \<open>Contract state and call environment\<close>

text \<open>
  The storage variables of the contract, the owner kept by \<^verbatim>\<open>Ownable\<close>, the status flag
  of \<^verbatim>\<open>ReentrancyGuard\<close>, the contract's own address \<^verbatim>\<open>address(this)\<close> and the ether
  balance of every account. Account balances are naturals: the ether supply is far below
  \<open>2 ^ 256\<close>, so crediting an account never overflows.
\<close>

record contract =
  channels :: "bytes32 \<Rightarrow> ChannelData"
  disputeTimeouts :: "bytes32 \<Rightarrow> uint256"
  inDispute :: "bytes32 \<Rightarrow> bool"
  yellowNetworkOracle :: address
  authorizedRelayers :: "address \<Rightarrow> bool"
  channelFee :: uint256
  relayerFee :: uint256
  owner :: address
  entered :: bool
  self :: address
  ether :: "address \<Rightarrow> nat"

text \<open>
  What a call sees of its transaction and block, together with the primitives the contract
  imports: \<^verbatim>\<open>keccak256\<close>, OpenZeppelin's \<^verbatim>\<open>ECDSA.recover\<close> (\<open>None\<close> when it reverts on
  the signature bytes) and whether an account accepts a plain ether transfer under the
  2300 gas stipend of \<^verbatim>\<open>transfer\<close>.
\<close>

record env =
  msg_sender :: address
  block_timestamp :: uint256
  block_number :: uint256
  keccak256 :: "bytes \<Rightarrow> bytes32"
  recover :: "bytes32 \<Rightarrow> bytes \<Rightarrow> address option"
  accepts :: "address \<Rightarrow> bool"

subsection \<open>Constants\<close>

definition DISPUTE_TIMEOUT :: uint256 where
  "DISPUTE_TIMEOUT = 86400"

definition MIN_TIMEOUT :: uint256 where
  "MIN_TIMEOUT = 3600"

definition MAX_TIMEOUT :: uint256 where
  "MAX_TIMEOUT = 2592000"

subsection \<open>Checked arithmetic, byte encoding, ether transfers\<close>

definition checked_add :: "uint256 \<Rightarrow> uint256 \<Rightarrow> error + uint256" where
  "checked_add a b = (if unat a + unat b < 2 ^ 256 then Inr (a + b) else Inl Panic)"

text \<open>\<^verbatim>\<open>abi.encodePacked\<close> of a fixed-width value: its bytes, most significant first.\<close>

definition be_bytes :: "nat \<Rightarrow> 'a::len word \<Rightarrow> bytes" where
  "be_bytes n w = map (\<lambda>i. ucast (drop_bit (8 * i) w)) (rev [0..<n])"

definition encode_bytes32 :: "bytes32 \<Rightarrow> bytes" where
  "encode_bytes32 w = be_bytes 32 w"

definition encode_address :: "address \<Rightarrow> bytes" where
  "encode_address a = be_bytes 20 a"

text \<open>
  \<^verbatim>\<open>MessageHashUtils.toEthSignedMessageHash\<close>: the hash of the 32 bytes behind the prefix
  \<^verbatim>\<open>"\x19Ethereum Signed Message:\n32"\<close>.
\<close>

definition toEthSignedMessageHash :: "env \<Rightarrow> bytes32 \<Rightarrow> bytes32" where
  "toEthSignedMessageHash e h =
     keccak256 e ([0x19] @ map (\<lambda>c. of_nat (of_char c)) ''Ethereum Signed Message:''
                  @ [0x0A, 0x33, 0x32] @ encode_bytes32 h)"

text \<open>
  \<^verbatim>\<open>payable(to).transfer(amount)\<close>: reverts when the contract holds less than the amount
  or the recipient refuses; otherwise the amount moves from the contract to the recipient.
\<close>

definition transfer :: "env \<Rightarrow> address \<Rightarrow> nat \<Rightarrow> contract \<Rightarrow> error + contract" where
  "transfer e to amount s =
     (if ether s (self s) < amount \<or> \<not> accepts e to then Inl TransferFailed
      else let debited = (ether s)(self s := ether s (self s) - amount)
           in Inr (s\<lparr>ether := debited(to := debited to + amount)\<rparr>))"

text \<open>The \<^verbatim>\<open>nonReentrant\<close> modifier around a function body.\<close>

definition nonReentrant :: "(contract \<Rightarrow> error + contract) \<Rightarrow> contract \<Rightarrow> error + contract" where
  "nonReentrant body s =
     (if entered s then Inl ReentrantCall
      else case body (s\<lparr>entered := True\<rparr>) of
             Inl err \<Rightarrow> Inl err
           | Inr s' \<Rightarrow> Inr (s'\<lparr>entered := False\<rparr>))"

text \<open>The condition of the \<^verbatim>\<open>onlyParticipant\<close> modifier.\<close>

definition onlyParticipant :: "env \<Rightarrow> contract \<Rightarrow> bytes32 \<Rightarrow> bool" where
  "onlyParticipant e s cid =
     (msg_sender e = participant1 (channels s cid) \<or> msg_sender e = participant2 (channels s cid))"

subsection \<open>Signature verification\<close>

definition getStateUpdateHash :: "env \<Rightarrow> StateUpdate \<Rightarrow> bytes32" where
  "getStateUpdateHash e u =
     keccak256 e (encode_bytes32 (channelId u) @ encode_bytes32 (upd_nonce u)
                  @ encode_bytes32 (upd_balance1 u) @ encode_bytes32 (upd_balance2 u))"

text \<open>The internal \<^verbatim>\<open>_isValidSignature\<close>; it reverts where \<^verbatim>\<open>ECDSA.recover\<close> does.\<close>

definition isValidSignature_internal :: "env \<Rightarrow> bytes32 \<Rightarrow> bytes \<Rightarrow> address \<Rightarrow> error + bool" where
  "isValidSignature_internal e messageHash signature signer =
     (case recover e (toEthSignedMessageHash e messageHash) signature of
        None \<Rightarrow> Inl ECDSAInvalidSignature
      | Some a \<Rightarrow> Inr (a = signer))"

definition isValidSignature ::
  "env \<Rightarrow> bytes32 \<Rightarrow> uint256 \<Rightarrow> uint256 \<Rightarrow> uint256 \<Rightarrow> bytes \<Rightarrow> address \<Rightarrow> error + bool" where
  "isValidSignature e cid n b1 b2 signature signer =
     isValidSignature_internal e
       (getStateUpdateHash e \<lparr>channelId = cid, upd_nonce = n, upd_balance1 = b1,
                               upd_balance2 = b2, signature1 = [], signature2 = []\<rparr>)
       signature signer"

subsection \<open>Channel lifecycle\<close>

text \<open>
  \<^verbatim>\<open>openChannel\<close> is payable: the value sent is the contract's before the body runs.
  The function returns the new channel id with the new state. Its body makes no call, so
  of its \<^verbatim>\<open>nonReentrant\<close> modifier only the entry check can be observed.
\<close>

definition openChannel ::
  "env \<Rightarrow> uint256 \<Rightarrow> address \<Rightarrow> address \<Rightarrow> uint256 \<Rightarrow> uint256 \<Rightarrow> uint256 \<Rightarrow> contract
     \<Rightarrow> error + (contract \<times> bytes32)" where
  "openChannel e msg_value p1 p2 amount1 amount2 tmo s =
     (if ether s (msg_sender e) < unat msg_value then Inl CallerCannotPay
      else if entered s then Inl ReentrantCall
      else if p1 = p2 then Inl ParticipantsNotDifferent
      else if \<not> (p1 \<noteq> 0 \<and> p2 \<noteq> 0) then Inl InvalidParticipants
      else if \<not> (MIN_TIMEOUT \<le> tmo \<and> tmo \<le> MAX_TIMEOUT) then Inl InvalidTimeout
      else case checked_add amount1 amount2 of
             Inl err \<Rightarrow> Inl err
           | Inr deposit \<Rightarrow>
        (case checked_add deposit (channelFee s) of
             Inl err \<Rightarrow> Inl err
           | Inr required \<Rightarrow>
          if \<not> (required \<le> msg_value) then Inl InsufficientFunds
          else
            let cid = keccak256 e (encode_address p1 @ encode_address p2
                                   @ encode_bytes32 (block_timestamp e)
                                   @ encode_bytes32 (block_number e));
                paid = (ether s)(msg_sender e := ether s (msg_sender e) - unat msg_value);
                held = paid(self s := paid (self s) + unat msg_value)
            in Inr (s\<lparr>channels := (channels s)(cid :=
                         \<lparr>participant1 = p1, participant2 = p2, balance1 = amount1,
                          balance2 = amount2, nonce = 0, timeout = tmo, isActive = True\<rparr>),
                       ether := held\<rparr>, cid)))"

text \<open>
  \<^verbatim>\<open>updateChannel\<close> with its modifiers \<^verbatim>\<open>onlyActive\<close> and \<^verbatim>\<open>notInDispute\<close>, both on the
  channel the update names. The other operations call it as the source does, modifiers
  included.
\<close>

definition updateChannel :: "env \<Rightarrow> StateUpdate \<Rightarrow> contract \<Rightarrow> error + contract" where
  "updateChannel e u s =
     (let channel = channels s (channelId u) in
      if \<not> isActive channel then Inl ChannelInactive
      else if inDispute s (channelId u) then Inl ChannelInDispute
      else if \<not> (nonce channel < upd_nonce u) then Inl InvalidNonce
      else case checked_add (upd_balance1 u) (upd_balance2 u) of
             Inl err \<Rightarrow> Inl err
           | Inr new_sum \<Rightarrow>
        (case checked_add (balance1 channel) (balance2 channel) of
             Inl err \<Rightarrow> Inl err
           | Inr old_sum \<Rightarrow>
          if new_sum \<noteq> old_sum then Inl InvalidBalanceSum
          else
            (let messageHash = getStateUpdateHash e u in
             (case isValidSignature_internal e messageHash (signature1 u) (participant1 channel) of
                Inl err \<Rightarrow> Inl err
              | Inr ok1 \<Rightarrow>
                if \<not> ok1 then Inl InvalidSignature1
                else
                  (case isValidSignature_internal e messageHash (signature2 u) (participant2 channel) of
                     Inl err \<Rightarrow> Inl err
                   | Inr ok2 \<Rightarrow>
                     if \<not> ok2 then Inl InvalidSignature2
                     else Inr (s\<lparr>channels := (channels s)(channelId u :=
                                   channel\<lparr>balance1 := upd_balance1 u,
                                           balance2 := upd_balance2 u,
                                           nonce := upd_nonce u\<rparr>)\<rparr>))))))"

text \<open>The two conditional payouts at the end of \<^verbatim>\<open>closeChannel\<close>.\<close>

definition payFinalBalances :: "env \<Rightarrow> bytes32 \<Rightarrow> contract \<Rightarrow> error + contract" where
  "payFinalBalances e cid s =
     (let channel = channels s cid in
      case (if 0 < balance1 channel
            then transfer e (participant1 channel) (unat (balance1 channel)) s
            else Inr s) of
        Inl err \<Rightarrow> Inl err
      | Inr s1 \<Rightarrow>
          if 0 < balance2 channel
          then transfer e (participant2 channel) (unat (balance2 channel)) s1
          else Inr s1)"

definition closeChannel :: "env \<Rightarrow> bytes32 \<Rightarrow> StateUpdate \<Rightarrow> contract \<Rightarrow> error + contract" where
  "closeChannel e cid finalUpdate s =
     (if \<not> onlyParticipant e s cid then Inl NotParticipant
      else if \<not> isActive (channels s cid) then Inl ChannelInactive
      else if inDispute s cid then Inl ChannelInDispute
      else nonReentrant (\<lambda>s0.
        case (if 0 < upd_nonce finalUpdate then updateChannel e finalUpdate s0 else Inr s0) of
          Inl err \<Rightarrow> Inl err
        | Inr s1 \<Rightarrow>
            payFinalBalances e cid
              (s1\<lparr>channels := (channels s1)(cid := (channels s1 cid)\<lparr>isActive := False\<rparr>)\<rparr>)) s)"

subsection \<open>Disputes\<close>

definition disputeChannel :: "env \<Rightarrow> bytes32 \<Rightarrow> contract \<Rightarrow> error + contract" where
  "disputeChannel e cid s =
     (if \<not> onlyParticipant e s cid then Inl NotParticipant
      else if \<not> isActive (channels s cid) then Inl ChannelInactive
      else if inDispute s cid then Inl AlreadyInDispute
      else case checked_add (block_timestamp e) DISPUTE_TIMEOUT of
             Inl err \<Rightarrow> Inl err
           | Inr deadline \<Rightarrow>
               Inr (s\<lparr>inDispute := (inDispute s)(cid := True),
                      disputeTimeouts := (disputeTimeouts s)(cid := deadline)\<rparr>))"

definition resolveDispute :: "env \<Rightarrow> bytes32 \<Rightarrow> StateUpdate \<Rightarrow> contract \<Rightarrow> error + contract" where
  "resolveDispute e cid u s =
     (if \<not> onlyParticipant e s cid then Inl NotParticipant
      else if \<not> inDispute s cid then Inl NoActiveDispute
      else if \<not> (block_timestamp e \<le> disputeTimeouts s cid) then Inl DisputeTimeoutExceeded
      else case updateChannel e u s of
             Inl err \<Rightarrow> Inl err
           | Inr s1 \<Rightarrow>
               Inr (s1\<lparr>inDispute := (inDispute s1)(cid := False),
                       disputeTimeouts := (disputeTimeouts s1)(cid := 0)\<rparr>))"

definition withdrawTimelock :: "env \<Rightarrow> bytes32 \<Rightarrow> contract \<Rightarrow> error + contract" where
  "withdrawTimelock e cid s =
     (if \<not> onlyParticipant e s cid then Inl NotParticipant
      else nonReentrant (\<lambda>s0.
        if \<not> inDispute s0 cid then Inl NoActiveDispute
        else if \<not> (disputeTimeouts s0 cid < block_timestamp e) then Inl DisputePeriodNotEnded
        else
          let s1 = s0\<lparr>channels := (channels s0)(cid := (channels s0 cid)\<lparr>isActive := False\<rparr>),
                      inDispute := (inDispute s0)(cid := False)\<rparr>;
              channel = channels s1 cid
          in case checked_add (balance1 channel) (balance2 channel) of
               Inl err \<Rightarrow> Inl err
             | Inr totalBalance \<Rightarrow>
                 let splitAmount = totalBalance div 2 in
                 (case transfer e (participant1 channel) (unat splitAmount) s1 of
                    Inl err \<Rightarrow> Inl err
                  | Inr s2 \<Rightarrow>
                      transfer e (participant2 channel) (unat (totalBalance - splitAmount)) s2)) s)"

definition getChannel :: "contract \<Rightarrow> bytes32 \<Rightarrow> ChannelData" where
  "getChannel s cid = channels s cid"

subsection \<open>Administration, relaying, fees\<close>

definition setYellowNetworkOracle :: "env \<Rightarrow> address \<Rightarrow> contract \<Rightarrow> error + contract" where
  "setYellowNetworkOracle e oracle s =
     (if msg_sender e \<noteq> owner s then Inl NotOwner
      else Inr (s\<lparr>yellowNetworkOracle := oracle\<rparr>))"

definition setRelayerAuthorization :: "env \<Rightarrow> address \<Rightarrow> bool \<Rightarrow> contract \<Rightarrow> error + contract" where
  "setRelayerAuthorization e relayer authorized s =
     (if msg_sender e \<noteq> owner s then Inl NotOwner
      else Inr (s\<lparr>authorizedRelayers := (authorizedRelayers s)(relayer := authorized)\<rparr>))"

definition updateFees :: "env \<Rightarrow> uint256 \<Rightarrow> uint256 \<Rightarrow> contract \<Rightarrow> error + contract" where
  "updateFees e newChannelFee newRelayerFee s =
     (if msg_sender e \<noteq> owner s then Inl NotOwner
      else Inr (s\<lparr>channelFee := newChannelFee, relayerFee := newRelayerFee\<rparr>))"

text \<open>The hash the relayer signs, the local \<^verbatim>\<open>relayHash\<close> of \<^verbatim>\<open>relayTransaction\<close>.\<close>

definition relayHash :: "env \<Rightarrow> StateUpdate \<Rightarrow> address \<Rightarrow> bytes32" where
  "relayHash e u relayer =
     keccak256 e (encode_bytes32 (channelId u) @ encode_bytes32 (upd_nonce u)
                  @ encode_address relayer)"

definition relayTransaction ::
  "env \<Rightarrow> StateUpdate \<Rightarrow> address \<Rightarrow> bytes \<Rightarrow> contract \<Rightarrow> error + contract" where
  "relayTransaction e u relayer relayerSignature s =
     (if \<not> authorizedRelayers s relayer then Inl UnauthorizedRelayer
      else
        case isValidSignature_internal e (relayHash e u relayer) relayerSignature relayer of
          Inl err \<Rightarrow> Inl err
        | Inr ok \<Rightarrow>
            if \<not> ok then Inl InvalidRelayerSignature
            else (case updateChannel e u s of
                    Inl err \<Rightarrow> Inl err
                  | Inr s1 \<Rightarrow> transfer e relayer (unat (relayerFee s1)) s1))"

definition withdrawFees :: "env \<Rightarrow> contract \<Rightarrow> error + contract" where
  "withdrawFees e s =
     (if msg_sender e \<noteq> owner s then Inl NotOwner
      else nonReentrant (\<lambda>s0.
        let balance = ether s0 (self s0) in
        if \<not> (0 < balance) then Inl NoFeesToWithdraw
        else transfer e (owner s0) balance s0) s)"

definition emergencyWithdraw :: "env \<Rightarrow> bytes32 \<Rightarrow> contract \<Rightarrow> error + contract" where
  "emergencyWithdraw e cid s =
     (if msg_sender e \<noteq> owner s then Inl NotOwner
      else
        let channel = channels s cid in
        if isActive channel then Inl ChannelStillActive
        else case checked_add (balance1 channel) (balance2 channel) of
               Inl err \<Rightarrow> Inl err
             | Inr totalBalance \<Rightarrow>
                 if 0 < totalBalance then
                   (case transfer e (participant1 channel) (unat (balance1 channel)) s of
                      Inl err \<Rightarrow> Inl err
                    | Inr s1 \<Rightarrow>
                        (case transfer e (participant2 channel) (unat (balance2 channel)) s1 of
                           Inl err \<Rightarrow> Inl err
                         | Inr s2 \<Rightarrow>
                             Inr (s2\<lparr>channels := (channels s2)(cid :=
                                    (channels s2 cid)\<lparr>balance1 := 0, balance2 := 0\<rparr>)\<rparr>)))
                 else Inr s)"

text \<open>
  The state after deployment: every mapping at its default, the fees at 0.001 and
  0.0001 ether (in wei), the deployer as owner.
\<close>

definition emptyChannel :: ChannelData where
  "emptyChannel = \<lparr>participant1 = 0, participant2 = 0, balance1 = 0, balance2 = 0,
                   nonce = 0, timeout = 0, isActive = False\<rparr>"

definition deploy :: "address \<Rightarrow> address \<Rightarrow> address \<Rightarrow> (address \<Rightarrow> nat) \<Rightarrow> contract" where
  "deploy deployer oracle this_address ledger =
     \<lparr>channels = (\<lambda>_. emptyChannel), disputeTimeouts = (\<lambda>_. 0), inDispute = (\<lambda>_. False),
      yellowNetworkOracle = oracle, authorizedRelayers = (\<lambda>_. False),
      channelFee = 1000000000000000, relayerFee = 100000000000000,
      owner = deployer, entered = False, self = this_address, ether = ledger\<rparr>"

subsection \<open>Calls and reachable states\<close>

text \<open>
  The external functions of the contract as one datatype of calls, and the states that a
  sequence of successful calls reaches from a fresh deployment. A reverted call changes
  nothing, so only the successful ones appear as steps. The calls are the functions the
  contract declares; the two it inherits from \<^verbatim>\<open>Ownable\<close> change nothing but the owner.
\<close>

datatype call =
    OpenChannel uint256 address address uint256 uint256 uint256
  | UpdateChannel StateUpdate
  | CloseChannel bytes32 StateUpdate
  | DisputeChannel bytes32
  | ResolveDispute bytes32 StateUpdate
  | WithdrawTimelock bytes32
  | SetYellowNetworkOracle address
  | SetRelayerAuthorization address bool
  | UpdateFees uint256 uint256
  | RelayTransaction StateUpdate address bytes
  | WithdrawFees
  | EmergencyWithdraw bytes32

fun exec :: "env \<Rightarrow> call \<Rightarrow> contract \<Rightarrow> error + contract" where
  "exec e (OpenChannel v p1 p2 a1 a2 tmo) s = map_sum id fst (openChannel e v p1 p2 a1 a2 tmo s)"
| "exec e (UpdateChannel u) s = updateChannel e u s"
| "exec e (CloseChannel cid u) s = closeChannel e cid u s"
| "exec e (DisputeChannel cid) s = disputeChannel e cid s"
| "exec e (ResolveDispute cid u) s = resolveDispute e cid u s"
| "exec e (WithdrawTimelock cid) s = withdrawTimelock e cid s"
| "exec e (SetYellowNetworkOracle a) s = setYellowNetworkOracle e a s"
| "exec e (SetRelayerAuthorization a b) s = setRelayerAuthorization e a b s"
| "exec e (UpdateFees f1 f2) s = updateFees e f1 f2 s"
| "exec e (RelayTransaction u r sg) s = relayTransaction e u r sg s"
| "exec e WithdrawFees s = withdrawFees e s"
| "exec e (EmergencyWithdraw cid) s = emergencyWithdraw e cid s"

inductive reachable :: "contract \<Rightarrow> bool" where
  deployed: "reachable (deploy deployer oracle this_address ledger)"
| called: "reachable s \<Longrightarrow> exec e c s = Inr s' \<Longrightarrow> reachable s'"

subsection \<open>A concrete scenario\<close>

text \<open>
  The scenario of the repository's tests, with small stand-ins for the two cryptographic
  primitives: the hash of a byte string is its last byte, and a one-byte signature recovers
  to the address that byte names. Alice is account 1, Bob is 2, the relayer is 3, the
  administrator is 9 and the contract lives at address 100; the contract starts with
  nothing, every other account with 5 ether. Amounts are in wei.
\<close>

definition toy_keccak256 :: "bytes \<Rightarrow> bytes32" where
  "toy_keccak256 bs = (case rev bs of [] \<Rightarrow> 0 | b # _ \<Rightarrow> ucast b)"

definition toy_recover :: "bytes32 \<Rightarrow> bytes \<Rightarrow> address option" where
  "toy_recover h sg = (case sg of [b] \<Rightarrow> Some (ucast b) | _ \<Rightarrow> None)"

definition ex_env :: "address \<Rightarrow> uint256 \<Rightarrow> env" where
  "ex_env sender now =
     \<lparr>msg_sender = sender, block_timestamp = now, block_number = 7,
      keccak256 = toy_keccak256, recover = toy_recover, accepts = (\<lambda>_. True)\<rparr>"

definition ex_deployed :: contract where
  "ex_deployed = deploy 9 5 100 (\<lambda>a. if a = 100 then 0 else 5000000000000000000)"

text \<open>After the administrator has authorised the relayer.\<close>

definition ex_ready :: contract where
  "ex_ready = ex_deployed\<lparr>authorizedRelayers := (\<lambda>a. a = 3)\<rparr>"

text \<open>
  After Alice has opened a channel with Bob, one ether each, sending the two deposits and
  the channel fee of 0.001 ether. The channel id is 7, the block number.
\<close>

definition ex_channel :: ChannelData where
  "ex_channel = \<lparr>participant1 = 1, participant2 = 2, balance1 = 1000000000000000000,
                 balance2 = 1000000000000000000, nonce = 0, timeout = 7200, isActive = True\<rparr>"

definition ex_opened :: contract where
  "ex_opened = ex_ready\<lparr>channels := (\<lambda>c. if c = 7 then ex_channel else emptyChannel),
       ether := (\<lambda>a. if a = 100 then 2001000000000000000
                      else if a = 1 then 2999000000000000000 else 5000000000000000000)\<rparr>"

text \<open>An update to (0.5, 1.5) ether at nonce 1, signed by both, and the empty update.\<close>

definition ex_update :: StateUpdate where
  "ex_update = \<lparr>channelId = 7, upd_nonce = 1, upd_balance1 = 500000000000000000,
                upd_balance2 = 1500000000000000000, signature1 = [1], signature2 = [2]\<rparr>"

definition ex_no_update :: StateUpdate where
  "ex_no_update = \<lparr>channelId = 0, upd_nonce = 0, upd_balance1 = 0, upd_balance2 = 0,
                   signature1 = [], signature2 = []\<rparr>"

definition ex_updated :: contract where
  "ex_updated = ex_opened\<lparr>channels := (\<lambda>c. if c = 7
       then ex_channel\<lparr>balance1 := 500000000000000000, balance2 := 1500000000000000000,
                       nonce := 1\<rparr>
       else emptyChannel)\<rparr>"

text \<open>After Alice has raised a dispute at time 1000: the deadline is 87400.\<close>

definition ex_disputed :: contract where
  "ex_disputed = ex_opened\<lparr>inDispute := (\<lambda>c. c = 7),
       disputeTimeouts := (\<lambda>c. if c = 7 then 87400 else 0)\<rparr>"

text \<open>After Alice has closed the undisputed channel without a final update.\<close>

definition ex_closed :: contract where
  "ex_closed = ex_opened\<lparr>channels := (\<lambda>c. if c = 7 then ex_channel\<lparr>isActive := False\<rparr>
                                             else emptyChannel),
       ether := (\<lambda>a. if a = 100 then 1000000000000000
                      else if a = 1 then 3999000000000000000
                      else if a = 2 then 6000000000000000000 else 5000000000000000000)\<rparr>"

text \<open>After the administrator has called \<^verbatim>\<open>withdrawFees\<close> on the open channel.\<close>

definition ex_swept :: contract where
  "ex_swept = ex_opened\<lparr>ether := (\<lambda>a. if a = 100 then 0
                      else if a = 9 then 7001000000000000000
                      else if a = 1 then 2999000000000000000 else 5000000000000000000)\<rparr>"

text \<open>
  After Alice has raised the dispute and the administrator has then called
  \<^verbatim>\<open>withdrawFees\<close>.
\<close>

definition ex_disputed_swept :: contract where
  "ex_disputed_swept = ex_disputed\<lparr>ether := (\<lambda>a. if a = 100 then 0
                      else if a = 9 then 7001000000000000000
                      else if a = 1 then 2999000000000000000 else 5000000000000000000)\<rparr>"

text \<open>After the relayer has submitted the update on the open channel and taken its fee.\<close>

definition ex_relayed :: contract where
  "ex_relayed = ex_updated\<lparr>ether := (\<lambda>a. if a = 100 then 2000900000000000000
                      else if a = 3 then 5000100000000000000
                      else if a = 1 then 2999000000000000000 else 5000000000000000000)\<rparr>"

text \<open>
  The disputed channel with 3 and 4 wei recorded, and the state after the timeout
  withdrawal on it.
\<close>

definition ex_odd_disputed :: contract where
  "ex_odd_disputed = ex_disputed\<lparr>channels := (\<lambda>c. if c = 7
       then ex_channel\<lparr>balance1 := 3, balance2 := 4\<rparr> else emptyChannel)\<rparr>"

definition ex_odd_split :: contract where
  "ex_odd_split = ex_odd_disputed\<lparr>channels := (\<lambda>c. if c = 7
         then ex_channel\<lparr>balance1 := 3, balance2 := 4, isActive := False\<rparr> else emptyChannel),
       inDispute := (\<lambda>_. False),
       ether := (\<lambda>a. if a = 100 then 2000999999999999993
                      else if a = 1 then 2999000000000000003
                      else if a = 2 then 5000000000000000004 else 5000000000000000000)\<rparr>"

text \<open>
  After Bob, in the block of Alice's call, has opened a channel for the same pair with
  half an ether each.
\<close>

definition ex_reopened :: contract where
  "ex_reopened = ex_opened\<lparr>channels := (\<lambda>c. if c = 7
         then ex_channel\<lparr>balance1 := 500000000000000000, balance2 := 500000000000000000,
                         timeout := 3600\<rparr>
         else emptyChannel),
       ether := (\<lambda>a. if a = 100 then 3002000000000000000
                      else if a = 1 then 2999000000000000000
                      else if a = 2 then 3999000000000000000 else 5000000000000000000)\<rparr>"

text \<open>
  A second channel, opened in block 8 by account 4 with account 6; then Alice closes
  channel 7; then the administrator calls \<^verbatim>\<open>emergencyWithdraw\<close> on channel 7.
\<close>

definition ex_other_channel :: ChannelData where
  "ex_other_channel = \<lparr>participant1 = 4, participant2 = 6, balance1 = 1000000000000000000,
                        balance2 = 1000000000000000000, nonce = 0, timeout = 7200,
                        isActive = True\<rparr>"

definition ex_two_opened :: contract where
  "ex_two_opened = ex_opened\<lparr>channels := (\<lambda>c. if c = 8 then ex_other_channel
                                                 else if c = 7 then ex_channel else emptyChannel),
       ether := (\<lambda>a. if a = 100 then 4002000000000000000
                      else if a = 4 then 2999000000000000000
                      else if a = 1 then 2999000000000000000 else 5000000000000000000)\<rparr>"

definition ex_two_closed :: contract where
  "ex_two_closed = ex_two_opened\<lparr>channels := (\<lambda>c. if c = 8 then ex_other_channel
         else if c = 7 then ex_channel\<lparr>isActive := False\<rparr> else emptyChannel),
       ether := (\<lambda>a. if a = 100 then 2002000000000000000
                      else if a = 4 then 2999000000000000000
                      else if a = 1 then 3999000000000000000
                      else if a = 2 then 6000000000000000000 else 5000000000000000000)\<rparr>"

definition ex_two_drained :: contract where
  "ex_two_drained = ex_two_closed\<lparr>channels := (\<lambda>c. if c = 8 then ex_other_channel
         else if c = 7 then ex_channel\<lparr>balance1 := 0, balance2 := 0, isActive := False\<rparr>
         else emptyChannel),
       ether := (\<lambda>a. if a = 100 then 2000000000000000
                      else if a = 4 then 2999000000000000000
                      else if a = 1 then 4999000000000000000
                      else if a = 2 then 7000000000000000000 else 5000000000000000000)\<rparr>"

section \<open>Basic facts\<close>

subsection \<open>Checked addition and accepted updates\<close>

lemma checked_add_Inr: "checked_add a b = Inr c \<Longrightarrow> unat c = unat a + unat b \<and> c = a + b"
  by (auto simp: checked_add_def unat_add_lem [THEN iffD1] split: if_splits)

lemma checked_add_Inl: "checked_add a b = Inl err \<Longrightarrow> err = Panic \<and> 2 ^ 256 \<le> unat a + unat b"
  by (auto simp: checked_add_def split: if_splits)

lemma checked_add_fits: "unat a + unat b < 2 ^ 256 \<Longrightarrow> checked_add a b = Inr (a + b)"
  by (simp add: checked_add_def)

lemma updateChannel_Inr:
  assumes "updateChannel e u s = Inr s'"
  shows "isActive (channels s (channelId u))"
    and "\<not> inDispute s (channelId u)"
    and "nonce (channels s (channelId u)) < upd_nonce u"
    and "unat (upd_balance1 u) + unat (upd_balance2 u)
         = unat (balance1 (channels s (channelId u))) + unat (balance2 (channels s (channelId u)))"
    and "unat (upd_balance1 u) + unat (upd_balance2 u) < 2 ^ 256"
    and "isValidSignature_internal e (getStateUpdateHash e u) (signature1 u)
           (participant1 (channels s (channelId u))) = Inr True"
    and "isValidSignature_internal e (getStateUpdateHash e u) (signature2 u)
           (participant2 (channels s (channelId u))) = Inr True"
    and "s' = s\<lparr>channels := (channels s)(channelId u :=
                 (channels s (channelId u))\<lparr>balance1 := upd_balance1 u,
                    balance2 := upd_balance2 u, nonce := upd_nonce u\<rparr>)\<rparr>"
proof -
  let ?ch = "channels s (channelId u)"
  from assms show "isActive ?ch" "\<not> inDispute s (channelId u)" "nonce ?ch < upd_nonce u"
    by (auto simp: updateChannel_def Let_def split: if_splits)
  from assms obtain n where n: "checked_add (upd_balance1 u) (upd_balance2 u) = Inr n"
    and o: "checked_add (balance1 ?ch) (balance2 ?ch) = Inr n"
    by (auto simp: updateChannel_def Let_def split: if_splits sum.splits)
  from n o show "unat (upd_balance1 u) + unat (upd_balance2 u) = unat (balance1 ?ch) + unat (balance2 ?ch)"
    by (metis checked_add_Inr)
  from n show "unat (upd_balance1 u) + unat (upd_balance2 u) < 2 ^ 256"
    by (auto simp: checked_add_def split: if_splits)
  from assms show "isValidSignature_internal e (getStateUpdateHash e u) (signature1 u) (participant1 ?ch) = Inr True"
    "isValidSignature_internal e (getStateUpdateHash e u) (signature2 u) (participant2 ?ch) = Inr True"
    by (auto simp: updateChannel_def Let_def split: if_splits sum.splits)
  from assms show "s' = s\<lparr>channels := (channels s)(channelId u :=
                 ?ch\<lparr>balance1 := upd_balance1 u, balance2 := upd_balance2 u, nonce := upd_nonce u\<rparr>)\<rparr>"
    by (auto simp: updateChannel_def Let_def split: if_splits sum.splits)
qed

lemma updateChannel_accepts:
  assumes "isActive (channels s (channelId u))"
    and "\<not> inDispute s (channelId u)"
    and "nonce (channels s (channelId u)) < upd_nonce u"
    and "unat (upd_balance1 u) + unat (upd_balance2 u)
         = unat (balance1 (channels s (channelId u))) + unat (balance2 (channels s (channelId u)))"
    and "unat (upd_balance1 u) + unat (upd_balance2 u) < 2 ^ 256"
    and "isValidSignature_internal e (getStateUpdateHash e u) (signature1 u)
           (participant1 (channels s (channelId u))) = Inr True"
    and "isValidSignature_internal e (getStateUpdateHash e u) (signature2 u)
           (participant2 (channels s (channelId u))) = Inr True"
  shows "updateChannel e u s = Inr (s\<lparr>channels := (channels s)(channelId u :=
                 (channels s (channelId u))\<lparr>balance1 := upd_balance1 u,
                    balance2 := upd_balance2 u, nonce := upd_nonce u\<rparr>)\<rparr>)"
proof -
  let ?ch = "channels s (channelId u)"
  have "upd_balance1 u + upd_balance2 u = balance1 ?ch + balance2 ?ch"
  proof -
    have "unat (upd_balance1 u + upd_balance2 u) = unat (upd_balance1 u) + unat (upd_balance2 u)"
      using assms(5) by (simp add: unat_add_lem [THEN iffD1])
    moreover have "unat (balance1 ?ch + balance2 ?ch) = unat (balance1 ?ch) + unat (balance2 ?ch)"
      using assms(4,5) by (simp add: unat_add_lem [THEN iffD1])
    ultimately show ?thesis
      using assms(4) by (simp add: word_unat_eq_iff)
  qed
  then show ?thesis
    using assms by (simp add: updateChannel_def Let_def checked_add_def)
qed

subsection \<open>Transfers, the reentrancy guard, and what a successful call leaves alone\<close>

lemma unat_half: "unat (w div 2 :: uint256) = unat w div 2"
  by (simp add: unat_div)

lemma unat_rest: "unat (w - w div 2 :: uint256) = unat w - unat w div 2"
proof -
  have "w div 2 \<le> w"
    by (simp add: word_le_nat_alt unat_div)
  then show ?thesis
    by (simp add: unat_sub unat_div)
qed

lemma transfer_Inr:
  "transfer e to amount s = Inr s' \<longleftrightarrow>
     amount \<le> ether s (self s) \<and> accepts e to
     \<and> s' = s\<lparr>ether := ((ether s)(self s := ether s (self s) - amount))
                 (to := ((ether s)(self s := ether s (self s) - amount)) to + amount)\<rparr>"
  by (auto simp: transfer_def Let_def)

lemma nonReentrant_Inr:
  "nonReentrant body s = Inr s' \<longleftrightarrow>
     \<not> entered s \<and> (\<exists>s1. body (s\<lparr>entered := True\<rparr>) = Inr s1 \<and> s' = s1\<lparr>entered := False\<rparr>)"
  by (auto simp: nonReentrant_def split: sum.splits)

lemma transfer_frame:
  assumes "transfer e to amount s = Inr s'"
  shows "channels s' = channels s" and "inDispute s' = inDispute s"
    and "entered s' = entered s" and "self s' = self s" and "owner s' = owner s"
    and "disputeTimeouts s' = disputeTimeouts s"
  using assms by (simp_all add: transfer_Inr)

lemma updateChannel_frame:
  assumes "updateChannel e u s = Inr s'"
  shows "inDispute s' = inDispute s" and "entered s' = entered s"
    and "isActive (channels s' cid) = isActive (channels s cid)"
    and "participant1 (channels s' cid) = participant1 (channels s cid)"
    and "participant2 (channels s' cid) = participant2 (channels s cid)"
    and "ether s' = ether s" and "self s' = self s" and "owner s' = owner s"
    and "disputeTimeouts s' = disputeTimeouts s" and "relayerFee s' = relayerFee s"
  by (simp_all add: updateChannel_Inr(8) [OF assms])

lemma payFinalBalances_frame:
  assumes "payFinalBalances e cid s = Inr s'"
  shows "channels s' = channels s" and "inDispute s' = inDispute s"
    and "entered s' = entered s" and "self s' = self s" and "owner s' = owner s"
  using assms
  by (auto simp: payFinalBalances_def Let_def transfer_Inr split: if_splits sum.splits)

subsection \<open>An invariant of the reachable states\<close>

text \<open>
  Between transactions no call is in progress, and a channel in dispute is active: only
  \<^verbatim>\<open>disputeChannel\<close> raises the flag, on an active channel, and the two functions that
  deactivate a channel either require the flag to be down or lower it.
\<close>

lemma openChannel_invariant:
  assumes "openChannel e v p1 p2 a1 a2 tmo s = Inr (s', cid)"
    and "\<not> entered s" and "\<forall>c. inDispute s c \<longrightarrow> isActive (channels s c)"
  shows "\<not> entered s' \<and> (\<forall>c. inDispute s' c \<longrightarrow> isActive (channels s' c))"
  using assms
  by (auto simp: openChannel_def Let_def split: if_splits sum.splits)

lemma updateChannel_invariant:
  assumes "updateChannel e u s = Inr s'"
    and "\<not> entered s" and "\<forall>c. inDispute s c \<longrightarrow> isActive (channels s c)"
  shows "\<not> entered s' \<and> (\<forall>c. inDispute s' c \<longrightarrow> isActive (channels s' c))"
  using assms(2,3) by (simp add: updateChannel_frame [OF assms(1)])

lemma closeChannel_Inr:
  "closeChannel e cid u s = Inr s' \<longleftrightarrow>
     onlyParticipant e s cid \<and> isActive (channels s cid) \<and> \<not> inDispute s cid \<and> \<not> entered s
     \<and> (\<exists>s1 s2.
          (if 0 < upd_nonce u then updateChannel e u (s\<lparr>entered := True\<rparr>)
           else Inr (s\<lparr>entered := True\<rparr>)) = Inr s1
        \<and> payFinalBalances e cid
            (s1\<lparr>channels := (channels s1)(cid := (channels s1 cid)\<lparr>isActive := False\<rparr>)\<rparr>) = Inr s2
        \<and> s' = s2\<lparr>entered := False\<rparr>)"
  by (auto simp: closeChannel_def nonReentrant_Inr split: sum.splits)

lemma closeChannel_invariant:
  assumes "closeChannel e cid u s = Inr s'"
    and "\<not> entered s" and "\<forall>c. inDispute s c \<longrightarrow> isActive (channels s c)"
  shows "\<not> entered s' \<and> (\<forall>c. inDispute s' c \<longrightarrow> isActive (channels s' c))"
proof -
  from assms(1) [unfolded closeChannel_Inr] obtain s1 s2 where quiet: "\<not> inDispute s cid"
    and upd: "(if 0 < upd_nonce u then updateChannel e u (s\<lparr>entered := True\<rparr>)
               else Inr (s\<lparr>entered := True\<rparr>)) = Inr s1"
    and pay: "payFinalBalances e cid
        (s1\<lparr>channels := (channels s1)(cid := (channels s1 cid)\<lparr>isActive := False\<rparr>)\<rparr>) = Inr s2"
    and s': "s' = s2\<lparr>entered := False\<rparr>"
    by blast
  from upd have s1: "inDispute s1 = inDispute s"
    "\<And>c. isActive (channels s1 c) = isActive (channels s c)"
    by (auto simp: updateChannel_frame split: if_splits)
  from payFinalBalances_frame [OF pay] s1 quiet assms(3) s'
  show ?thesis
    by auto
qed

lemma disputeChannel_invariant:
  assumes "disputeChannel e cid s = Inr s'"
    and "\<not> entered s" and "\<forall>c. inDispute s c \<longrightarrow> isActive (channels s c)"
  shows "\<not> entered s' \<and> (\<forall>c. inDispute s' c \<longrightarrow> isActive (channels s' c))"
  using assms
  by (auto simp: disputeChannel_def split: if_splits sum.splits)

lemma resolveDispute_invariant:
  assumes "resolveDispute e cid u s = Inr s'"
    and "\<not> entered s" and "\<forall>c. inDispute s c \<longrightarrow> isActive (channels s c)"
  shows "\<not> entered s' \<and> (\<forall>c. inDispute s' c \<longrightarrow> isActive (channels s' c))"
proof -
  from assms(1) obtain s1 where upd: "updateChannel e u s = Inr s1"
    and s': "s' = s1\<lparr>inDispute := (inDispute s1)(cid := False),
                     disputeTimeouts := (disputeTimeouts s1)(cid := 0)\<rparr>"
    by (auto simp: resolveDispute_def split: if_splits sum.splits)
  from updateChannel_invariant [OF upd assms(2,3)] s' show ?thesis
    by simp
qed

lemma withdrawTimelock_Inr:
  "withdrawTimelock e cid s = Inr s' \<longleftrightarrow>
     onlyParticipant e s cid \<and> \<not> entered s \<and> inDispute s cid
     \<and> disputeTimeouts s cid < block_timestamp e
     \<and> (\<exists>total s2 s3.
          checked_add (balance1 (channels s cid)) (balance2 (channels s cid)) = Inr total
        \<and> transfer e (participant1 (channels s cid)) (unat (total div 2))
            (s\<lparr>entered := True,
               channels := (channels s)(cid := (channels s cid)\<lparr>isActive := False\<rparr>),
               inDispute := (inDispute s)(cid := False)\<rparr>) = Inr s2
        \<and> transfer e (participant2 (channels s cid)) (unat (total - total div 2)) s2 = Inr s3
        \<and> s' = s3\<lparr>entered := False\<rparr>)"
  by (auto simp: withdrawTimelock_def nonReentrant_Inr Let_def split: sum.splits)

lemma withdrawTimelock_frame:
  assumes "withdrawTimelock e cid s = Inr s'"
  shows "\<not> entered s'" and "inDispute s' = (inDispute s)(cid := False)"
    and "channels s' = (channels s)(cid := (channels s cid)\<lparr>isActive := False\<rparr>)"
  using assms by (auto simp: withdrawTimelock_Inr transfer_Inr)

lemma withdrawTimelock_invariant:
  assumes "withdrawTimelock e cid s = Inr s'"
    and "\<not> entered s" and "\<forall>c. inDispute s c \<longrightarrow> isActive (channels s c)"
  shows "\<not> entered s' \<and> (\<forall>c. inDispute s' c \<longrightarrow> isActive (channels s' c))"
  using assms(3) by (simp add: withdrawTimelock_frame [OF assms(1)])

lemma relayTransaction_invariant:
  assumes "relayTransaction e u r sg s = Inr s'"
    and "\<not> entered s" and "\<forall>c. inDispute s c \<longrightarrow> isActive (channels s c)"
  shows "\<not> entered s' \<and> (\<forall>c. inDispute s' c \<longrightarrow> isActive (channels s' c))"
proof -
  from assms(1) obtain s1 where upd: "updateChannel e u s = Inr s1"
    and pay: "transfer e r (unat (relayerFee s1)) s1 = Inr s'"
    by (auto simp: relayTransaction_def Let_def split: if_splits sum.splits)
  from updateChannel_invariant [OF upd assms(2,3)] transfer_frame [OF pay] show ?thesis
    by simp
qed

lemma withdrawFees_invariant:
  assumes "withdrawFees e s = Inr s'"
    and "\<not> entered s" and "\<forall>c. inDispute s c \<longrightarrow> isActive (channels s c)"
  shows "\<not> entered s' \<and> (\<forall>c. inDispute s' c \<longrightarrow> isActive (channels s' c))"
  using assms
  by (auto simp: withdrawFees_def nonReentrant_Inr Let_def transfer_Inr split: if_splits)

lemma emergencyWithdraw_invariant:
  assumes "emergencyWithdraw e cid s = Inr s'"
    and "\<not> entered s" and "\<forall>c. inDispute s c \<longrightarrow> isActive (channels s c)"
  shows "\<not> entered s' \<and> (\<forall>c. inDispute s' c \<longrightarrow> isActive (channels s' c))"
  using assms
  by (auto simp: emergencyWithdraw_def Let_def transfer_Inr split: if_splits sum.splits)

lemma reachable_invariant:
  "reachable s \<Longrightarrow> \<not> entered s \<and> (\<forall>c. inDispute s c \<longrightarrow> isActive (channels s c))"
proof (induction rule: reachable.induct)
  case (deployed deployer orc this_address ledger)
  show ?case
    by (simp add: deploy_def)
next
  case (called s e c s')
  then have quiet: "\<not> entered s" and inv: "\<forall>c. inDispute s c \<longrightarrow> isActive (channels s c)"
    by simp_all
  from called.hyps(2) show ?case
  proof (cases c)
    case (OpenChannel v p1 p2 a1 a2 tmo)
    with called.hyps(2) obtain cid where "openChannel e v p1 p2 a1 a2 tmo s = Inr (s', cid)"
      by (cases "openChannel e v p1 p2 a1 a2 tmo s") auto
    then show ?thesis
      using quiet inv by (rule openChannel_invariant)
  next
    case (SetYellowNetworkOracle a)
    with called.hyps(2) quiet inv show ?thesis
      by (auto simp: setYellowNetworkOracle_def split: if_splits)
  next
    case (SetRelayerAuthorization a b)
    with called.hyps(2) quiet inv show ?thesis
      by (auto simp: setRelayerAuthorization_def split: if_splits)
  next
    case (UpdateFees f1 f2)
    with called.hyps(2) quiet inv show ?thesis
      by (auto simp: updateFees_def split: if_splits)
  qed (use called.hyps(2) quiet inv in \<open>simp_all add: updateChannel_invariant closeChannel_invariant
        disputeChannel_invariant resolveDispute_invariant withdrawTimelock_invariant
        relayTransaction_invariant withdrawFees_invariant emergencyWithdraw_invariant\<close>)
qed

subsection \<open>Resolving a dispute with an update for the disputed channel\<close>

text \<open>
  \<^verbatim>\<open>resolveDispute\<close> requires the dispute flag to be up and then calls \<^verbatim>\<open>updateChannel\<close>,
  whose modifier \<^verbatim>\<open>notInDispute\<close> requires the same flag to be down: with an update for
  the disputed channel itself the call reverts in every state.
\<close>

lemma resolveDispute_own_channel_reverts:
  assumes "channelId u = cid"
  shows "\<exists>err. resolveDispute e cid u s = Inl err"
proof (cases "inDispute s cid")
  case True
  with assms have "\<exists>err. updateChannel e u s = Inl err"
    by (simp add: updateChannel_def Let_def)
  then show ?thesis
    by (auto simp: resolveDispute_def)
next
  case False
  then show ?thesis
    by (simp add: resolveDispute_def)
qed

lemma resolveDispute_own_channel_error:
  assumes "channelId u = cid" and "onlyParticipant e s cid" and "inDispute s cid"
    and "block_timestamp e \<le> disputeTimeouts s cid" and "isActive (channels s cid)"
  shows "resolveDispute e cid u s = Inl ChannelInDispute"
  using assms by (simp add: resolveDispute_def updateChannel_def Let_def)

subsection \<open>Payments at close, in an emergency, and of the fees\<close>

lemma payFinalBalances_pays:
  assumes "payFinalBalances e cid s = Inr s'"
    and "participant1 (channels s cid) \<noteq> participant2 (channels s cid)"
    and "participant1 (channels s cid) \<noteq> self s"
    and "participant2 (channels s cid) \<noteq> self s"
  shows "ether s' (participant1 (channels s cid))
           = ether s (participant1 (channels s cid)) + unat (balance1 (channels s cid))"
    and "ether s' (participant2 (channels s cid))
           = ether s (participant2 (channels s cid)) + unat (balance2 (channels s cid))"
  using assms
  by (auto simp: payFinalBalances_def Let_def transfer_Inr word_gt_0
           split: if_splits sum.splits)

lemma emergencyWithdraw_pays:
  assumes "msg_sender e = owner s" and "\<not> isActive (channels s cid)"
    and "B1 = unat (balance1 (channels s cid))" and "B2 = unat (balance2 (channels s cid))"
    and "0 < B1 + B2" and "B1 + B2 < 2 ^ 256" and "B1 + B2 \<le> ether s (self s)"
    and "accepts e (participant1 (channels s cid))"
    and "accepts e (participant2 (channels s cid))"
    and "participant1 (channels s cid) \<noteq> participant2 (channels s cid)"
    and "participant1 (channels s cid) \<noteq> self s"
    and "participant2 (channels s cid) \<noteq> self s"
  shows "\<exists>s'. emergencyWithdraw e cid s = Inr s'
      \<and> ether s' (participant1 (channels s cid)) = ether s (participant1 (channels s cid)) + B1
      \<and> ether s' (participant2 (channels s cid)) = ether s (participant2 (channels s cid)) + B2
      \<and> ether s' (self s) + (B1 + B2) = ether s (self s)
      \<and> balance1 (channels s' cid) = 0 \<and> balance2 (channels s' cid) = 0"
proof -
  let ?b1 = "balance1 (channels s cid)" and ?b2 = "balance2 (channels s cid)"
  have tot: "checked_add ?b1 ?b2 = Inr (?b1 + ?b2)" and ut: "unat (?b1 + ?b2) = B1 + B2"
    using assms(3,4,6) by (simp_all add: checked_add_fits unat_add_lem [THEN iffD1])
  from ut assms(5) have pos: "0 < ?b1 + ?b2"
    by (simp add: word_less_nat_alt)
  from assms tot pos show ?thesis
    by (simp add: emergencyWithdraw_def Let_def transfer_def)
qed

text \<open>
  The payments of \<^verbatim>\<open>emergencyWithdraw\<close> and of \<^verbatim>\<open>withdrawTimelock\<close> come out of the
  contract's balance: when the contract holds less than the recorded total, or a
  participant refuses the payment, the call reverts in one of its transfers.
\<close>

lemma emergencyWithdraw_unfunded:
  assumes "msg_sender e = owner s" and "\<not> isActive (channels s cid)"
    and "B1 = unat (balance1 (channels s cid))" and "B2 = unat (balance2 (channels s cid))"
    and "0 < B1 + B2" and "B1 + B2 < 2 ^ 256"
    and "participant1 (channels s cid) \<noteq> self s"
    and "\<not> (B1 + B2 \<le> ether s (self s) \<and> accepts e (participant1 (channels s cid))
            \<and> accepts e (participant2 (channels s cid)))"
  shows "emergencyWithdraw e cid s = Inl TransferFailed"
proof -
  let ?b1 = "balance1 (channels s cid)" and ?b2 = "balance2 (channels s cid)"
  have tot: "checked_add ?b1 ?b2 = Inr (?b1 + ?b2)" and ut: "unat (?b1 + ?b2) = B1 + B2"
    using assms(3,4,6) by (simp_all add: checked_add_fits unat_add_lem [THEN iffD1])
  from ut assms(5) have pos: "0 < ?b1 + ?b2"
    by (simp add: word_less_nat_alt)
  from assms tot pos show ?thesis
    by (auto simp: emergencyWithdraw_def Let_def transfer_def)
qed

lemma withdrawTimelock_unfunded:
  assumes "onlyParticipant e s cid" and "\<not> entered s" and "inDispute s cid"
    and "disputeTimeouts s cid < block_timestamp e"
    and "T = unat (balance1 (channels s cid)) + unat (balance2 (channels s cid))"
    and "T < 2 ^ 256"
    and "participant1 (channels s cid) \<noteq> self s"
    and "\<not> (T \<le> ether s (self s) \<and> accepts e (participant1 (channels s cid))
            \<and> accepts e (participant2 (channels s cid)))"
  shows "withdrawTimelock e cid s = Inl TransferFailed"
proof -
  let ?b1 = "balance1 (channels s cid)" and ?b2 = "balance2 (channels s cid)"
  have tot: "checked_add ?b1 ?b2 = Inr (?b1 + ?b2)" and ut: "unat (?b1 + ?b2) = T"
    using assms(5,6) by (simp_all add: checked_add_fits unat_add_lem [THEN iffD1])
  from assms tot ut show ?thesis
    by (auto simp: withdrawTimelock_def nonReentrant_def Let_def transfer_def unat_half unat_rest)
qed

text \<open>
  \<^verbatim>\<open>withdrawFees\<close> transfers \<^verbatim>\<open>address(this).balance\<close>: everything the contract holds,
  the deposits of the open channels included.
\<close>

lemma withdrawFees_takes_everything:
  assumes "withdrawFees e s = Inr s'" and "owner s \<noteq> self s"
  shows "ether s' (self s) = 0" and "ether s' (owner s) = ether s (owner s) + ether s (self s)"
  using assms
  by (auto simp: withdrawFees_def nonReentrant_Inr Let_def transfer_Inr split: if_splits)

subsection \<open>Every entry point conserves the recorded totals\<close>

text \<open>
  \<^verbatim>\<open>relayTransaction\<close>, \<^verbatim>\<open>closeChannel\<close> and \<^verbatim>\<open>resolveDispute\<close> change recorded balances
  only through \<^verbatim>\<open>updateChannel\<close>, so a successful call leaves the sum recorded for every
  channel as it was.
\<close>

lemma relayTransaction_conserves:
  assumes "relayTransaction e u r sg s = Inr s'"
  shows "unat (balance1 (channels s' cid)) + unat (balance2 (channels s' cid))
         = unat (balance1 (channels s cid)) + unat (balance2 (channels s cid))"
proof -
  from assms obtain s1 where upd: "updateChannel e u s = Inr s1"
    and pay: "transfer e r (unat (relayerFee s1)) s1 = Inr s'"
    by (auto simp: relayTransaction_def split: if_splits sum.splits)
  from updateChannel_Inr(4,8) [OF upd] transfer_frame(1) [OF pay] show ?thesis
    by simp
qed

lemma closeChannel_conserves:
  assumes "closeChannel e cid' u s = Inr s'"
  shows "unat (balance1 (channels s' cid)) + unat (balance2 (channels s' cid))
         = unat (balance1 (channels s cid)) + unat (balance2 (channels s cid))"
proof -
  from assms [unfolded closeChannel_Inr] obtain s1 s2
    where upd: "(if 0 < upd_nonce u then updateChannel e u (s\<lparr>entered := True\<rparr>)
                 else Inr (s\<lparr>entered := True\<rparr>)) = Inr s1"
    and pay: "payFinalBalances e cid'
        (s1\<lparr>channels := (channels s1)(cid' := (channels s1 cid')\<lparr>isActive := False\<rparr>)\<rparr>) = Inr s2"
    and s': "s' = s2\<lparr>entered := False\<rparr>"
    by blast
  have "unat (balance1 (channels s1 cid)) + unat (balance2 (channels s1 cid))
         = unat (balance1 (channels s cid)) + unat (balance2 (channels s cid))"
  proof (cases "0 < upd_nonce u")
    case True
    with upd have ok: "updateChannel e u (s\<lparr>entered := True\<rparr>) = Inr s1"
      by simp
    from updateChannel_Inr(4,8) [OF ok] show ?thesis
      by simp
  next
    case False
    with upd have "s1 = s\<lparr>entered := True\<rparr>"
      by simp
    then show ?thesis
      by simp
  qed
  with payFinalBalances_frame(1) [OF pay] s' show ?thesis
    by auto
qed

lemma resolveDispute_conserves:
  assumes "resolveDispute e cid' u s = Inr s'"
  shows "unat (balance1 (channels s' cid)) + unat (balance2 (channels s' cid))
         = unat (balance1 (channels s cid)) + unat (balance2 (channels s cid))"
proof -
  from assms obtain s1 where upd: "updateChannel e u s = Inr s1"
    and s': "channels s' = channels s1"
    by (auto simp: resolveDispute_def split: if_splits sum.splits)
  from updateChannel_Inr(4,8) [OF upd] s' show ?thesis
    by simp
qed

subsection \<open>The scenario, step by step\<close>

lemma rev_be_bytes_Suc:
  "rev (be_bytes (Suc n) w) = ucast w # map (\<lambda>i. ucast (drop_bit (8 * i) w)) [Suc 0..<Suc n]"
  by (simp add: be_bytes_def rev_map upt_conv_Cons del: upt_Suc)

lemma toy_keccak256_append:
  "ys \<noteq> [] \<Longrightarrow> toy_keccak256 (xs @ ys) = toy_keccak256 ys"
  by (cases ys rule: rev_cases) (simp_all add: toy_keccak256_def)

lemma encode_bytes32_not_Nil: "encode_bytes32 w \<noteq> []"
  by (simp add: encode_bytes32_def be_bytes_def)

lemma toy_keccak256_encode_bytes32:
  "toy_keccak256 (encode_bytes32 w) = ucast (ucast w :: 8 word)"
proof -
  have "encode_bytes32 w = be_bytes (Suc 31) w"
    by (simp add: encode_bytes32_def)
  then show ?thesis
    by (simp only: toy_keccak256_def rev_be_bytes_Suc) simp
qed

lemmas toy_keccak256_last =
  toy_keccak256_append encode_bytes32_not_Nil toy_keccak256_encode_bytes32

lemmas ex_defs = ex_env_def ex_deployed_def ex_ready_def ex_opened_def ex_channel_def
  ex_update_def ex_no_update_def ex_updated_def ex_disputed_def ex_closed_def ex_swept_def
  ex_relayed_def ex_odd_disputed_def ex_odd_split_def ex_reopened_def ex_other_channel_def
  ex_two_opened_def ex_two_closed_def ex_two_drained_def ex_disputed_swept_def
  deploy_def emptyChannel_def toy_recover_def

lemma ex_authorize:
  "setRelayerAuthorization (ex_env 9 900) 3 True ex_deployed = Inr ex_ready"
  by (simp add: setRelayerAuthorization_def ex_defs fun_eq_iff)

lemma ex_open:
  "openChannel (ex_env 1 1000) 2001000000000000000 1 2 1000000000000000000
     1000000000000000000 7200 ex_ready = Inr (ex_opened, 7)"
  by (simp add: openChannel_def ex_defs checked_add_def MIN_TIMEOUT_def MAX_TIMEOUT_def
      toy_keccak256_last Let_def fun_eq_iff)

lemma ex_update_accepted: "updateChannel (ex_env 3 1500) ex_update ex_opened = Inr ex_updated"
  by (simp add: updateChannel_def ex_defs checked_add_def isValidSignature_internal_def
      fun_eq_iff)

lemma ex_dispute: "disputeChannel (ex_env 1 1000) 7 ex_opened = Inr ex_disputed"
  by (simp add: disputeChannel_def onlyParticipant_def ex_defs checked_add_def
      DISPUTE_TIMEOUT_def fun_eq_iff)

lemma ex_close: "closeChannel (ex_env 1 3000) 7 ex_no_update ex_opened = Inr ex_closed"
  by (simp add: closeChannel_def payFinalBalances_def transfer_def nonReentrant_def
      onlyParticipant_def ex_defs fun_eq_iff)

lemma ex_sweep: "withdrawFees (ex_env 9 3000) ex_opened = Inr ex_swept"
  by (simp add: withdrawFees_def transfer_def nonReentrant_def ex_defs fun_eq_iff)

lemma ex_open_other:
  "openChannel ((ex_env 4 1100)\<lparr>block_number := 8\<rparr>) 2001000000000000000 4 6
     1000000000000000000 1000000000000000000 7200 ex_opened = Inr (ex_two_opened, 8)"
  by (simp add: openChannel_def ex_defs checked_add_def MIN_TIMEOUT_def MAX_TIMEOUT_def
      toy_keccak256_last Let_def fun_eq_iff)

lemma ex_reopen:
  "openChannel (ex_env 2 1000) 1001000000000000000 1 2 500000000000000000
     500000000000000000 3600 ex_opened = Inr (ex_reopened, 7)"
  by (simp add: openChannel_def ex_defs checked_add_def MIN_TIMEOUT_def MAX_TIMEOUT_def
      toy_keccak256_last Let_def fun_eq_iff)

lemma ex_close_first:
  "closeChannel (ex_env 1 3000) 7 ex_no_update ex_two_opened = Inr ex_two_closed"
  by (simp add: closeChannel_def payFinalBalances_def transfer_def nonReentrant_def
      onlyParticipant_def ex_defs fun_eq_iff)

lemma ex_drain:
  "emergencyWithdraw (ex_env 9 4000) 7 ex_two_closed = Inr ex_two_drained"
  by (simp add: emergencyWithdraw_def transfer_def checked_add_def ex_defs Let_def fun_eq_iff)

lemma ex_relay:
  "relayTransaction (ex_env 3 1500) ex_update 3 [3] ex_opened = Inr ex_relayed"
  by (simp add: relayTransaction_def updateChannel_def transfer_def checked_add_def
      isValidSignature_internal_def ex_defs Let_def fun_eq_iff)

lemma ex_timeout_split:
  "withdrawTimelock (ex_env 2 90000) 7 ex_odd_disputed = Inr ex_odd_split"
  by (simp add: withdrawTimelock_def nonReentrant_def transfer_def checked_add_def
      onlyParticipant_def ex_defs Let_def fun_eq_iff)

text \<open>The scenario's states are reachable from the deployment.\<close>

lemma reachable_ex_opened: "reachable ex_opened"
proof -
  have "reachable ex_deployed"
    unfolding ex_deployed_def by (rule reachable.deployed)
  then have "reachable ex_ready"
    by (rule reachable.called [where c = "SetRelayerAuthorization 3 True" and e = "ex_env 9 900"])
       (simp add: ex_authorize)
  then show ?thesis
    by (rule reachable.called [where c = "OpenChannel 2001000000000000000 1 2
          1000000000000000000 1000000000000000000 7200" and e = "ex_env 1 1000"])
       (simp add: ex_open)
qed

lemma reachable_ex_closed: "reachable ex_closed"
  using reachable_ex_opened
  by (rule reachable.called [where c = "CloseChannel 7 ex_no_update" and e = "ex_env 1 3000"])
     (simp add: ex_close)

lemma reachable_ex_swept: "reachable ex_swept"
  using reachable_ex_opened
  by (rule reachable.called [where c = WithdrawFees and e = "ex_env 9 3000"]) (simp add: ex_sweep)

lemma ex_sweep_disputed: "withdrawFees (ex_env 9 3000) ex_disputed = Inr ex_disputed_swept"
  by (simp add: withdrawFees_def transfer_def nonReentrant_def ex_defs fun_eq_iff)

lemma reachable_ex_disputed_swept: "reachable ex_disputed_swept"
proof -
  have "reachable ex_disputed"
    using reachable_ex_opened
    by (rule reachable.called [where c = "DisputeChannel 7" and e = "ex_env 1 1000"])
       (simp add: ex_dispute)
  then show ?thesis
    by (rule reachable.called [where c = WithdrawFees and e = "ex_env 9 3000"])
       (simp add: ex_sweep_disputed)
qed

section \<open>The claims\<close>

subsection \<open>C1: resolving a dispute\<close>

text \<open>
  Claim C1 says that a participant who submits, before the deadline of a dispute, a
  dual-signed update with a larger nonce and the same balance sum resolves the dispute:
  the balances and the nonce are replaced and the flag is cleared. The code reverts
  instead. In the scenario Alice disputes channel 7 at time 1000; at time 2000, before the
  deadline 87400, Bob submits the update that \<^verbatim>\<open>updateChannel\<close> accepts on the undisputed
  channel; \<^verbatim>\<open>resolveDispute\<close> reverts with "Channel in dispute".
\<close>

theorem resolveDispute_rejects_valid_update:
  "disputeChannel (ex_env 1 1000) 7 ex_opened = Inr ex_disputed
   \<and> onlyParticipant (ex_env 2 2000) ex_disputed 7
   \<and> block_timestamp (ex_env 2 2000) < disputeTimeouts ex_disputed 7
   \<and> updateChannel (ex_env 2 2000) ex_update ex_opened = Inr ex_updated
   \<and> resolveDispute (ex_env 2 2000) 7 ex_update ex_disputed = Inl ChannelInDispute"
  by (simp add: disputeChannel_def resolveDispute_def updateChannel_def onlyParticipant_def
      isValidSignature_internal_def checked_add_def DISPUTE_TIMEOUT_def ex_defs fun_eq_iff)

subsection \<open>C2: accepted updates conserve the channel total\<close>

text \<open>
  Claim C2. Every update that \<^verbatim>\<open>updateChannel\<close> accepts carries balances whose sum is the
  sum of the channel's balances just before, so the total recorded for the channel (and
  for every other channel) is the same after the update as before; an update whose sum
  differs is rejected, and a rejected call leaves the state as it was. The arithmetic is
  the unbounded one: a sum that leaves \<^verbatim>\<open>uint256\<close> is rejected too. \<^verbatim>\<open>relayTransaction\<close>,
  \<^verbatim>\<open>closeChannel\<close> and \<^verbatim>\<open>resolveDispute\<close> apply an update only by calling this function.
\<close>

theorem updateChannel_conserves_balance_sum:
  "(updateChannel e u s = Inr s' \<longrightarrow>
      unat (upd_balance1 u) + unat (upd_balance2 u)
        = unat (balance1 (channels s (channelId u))) + unat (balance2 (channels s (channelId u)))
      \<and> balance1 (channels s' (channelId u)) = upd_balance1 u
      \<and> balance2 (channels s' (channelId u)) = upd_balance2 u
      \<and> (\<forall>cid. unat (balance1 (channels s' cid)) + unat (balance2 (channels s' cid))
               = unat (balance1 (channels s cid)) + unat (balance2 (channels s cid))))
   \<and> (unat (upd_balance1 u) + unat (upd_balance2 u)
        \<noteq> unat (balance1 (channels s (channelId u))) + unat (balance2 (channels s (channelId u)))
      \<longrightarrow> (\<exists>err. updateChannel e u s = Inl err))"
proof (intro conjI impI)
  assume ok: "updateChannel e u s = Inr s'"
  note facts = updateChannel_Inr [OF ok]
  show sum: "unat (upd_balance1 u) + unat (upd_balance2 u)
        = unat (balance1 (channels s (channelId u))) + unat (balance2 (channels s (channelId u)))"
    by (rule facts(4))
  show "balance1 (channels s' (channelId u)) = upd_balance1 u"
    and "balance2 (channels s' (channelId u)) = upd_balance2 u"
    by (simp_all add: facts(8))
  show "\<forall>cid. unat (balance1 (channels s' cid)) + unat (balance2 (channels s' cid))
               = unat (balance1 (channels s cid)) + unat (balance2 (channels s cid))"
    using sum by (simp add: facts(8))
next
  assume "unat (upd_balance1 u) + unat (upd_balance2 u)
        \<noteq> unat (balance1 (channels s (channelId u))) + unat (balance2 (channels s (channelId u)))"
  then have "\<And>s'. updateChannel e u s \<noteq> Inr s'"
    using updateChannel_Inr(4) by blast
  then show "\<exists>err. updateChannel e u s = Inl err"
    by (cases "updateChannel e u s") auto
qed

theorem updateChannel_conserves_balance_sum_witness:
  "updateChannel (ex_env 3 1500) ex_update ex_opened = Inr ex_updated
   \<and> unat (upd_balance1 ex_update) + unat (upd_balance2 ex_update)
       = unat (balance1 (channels ex_opened 7)) + unat (balance2 (channels ex_opened 7))
   \<and> unat (balance1 (channels ex_updated 7)) + unat (balance2 (channels ex_updated 7))
       = 2000000000000000000
   \<and> (\<exists>err. updateChannel (ex_env 3 1500) (ex_update\<lparr>upd_balance2 := 1500000000000000001\<rparr>)
               ex_opened = Inl err)"
proof -
  have differs: "unat (upd_balance1 (ex_update\<lparr>upd_balance2 := 1500000000000000001\<rparr>))
         + unat (upd_balance2 (ex_update\<lparr>upd_balance2 := 1500000000000000001\<rparr>))
      \<noteq> unat (balance1 (channels ex_opened (channelId (ex_update\<lparr>upd_balance2 := 1500000000000000001\<rparr>))))
        + unat (balance2 (channels ex_opened (channelId (ex_update\<lparr>upd_balance2 := 1500000000000000001\<rparr>))))"
    by (simp add: ex_defs)
  have id: "channelId ex_update = 7"
    by (simp add: ex_defs)
  have total: "unat (balance1 (channels ex_opened 7)) + unat (balance2 (channels ex_opened 7))
       = 2000000000000000000"
    by (simp add: ex_defs)
  from updateChannel_conserves_balance_sum
         [of "ex_env 3 1500" ex_update ex_opened ex_updated]
       updateChannel_conserves_balance_sum
         [of "ex_env 3 1500" "ex_update\<lparr>upd_balance2 := 1500000000000000001\<rparr>" ex_opened]
       ex_update_accepted differs id total
  show ?thesis
    by simp
qed

subsection \<open>C3: the nonce strictly increases\<close>

text \<open>
  Claim C3. \<^verbatim>\<open>updateChannel\<close> rejects every update whose nonce is not above the channel's
  nonce, whatever its signatures are (on an active, undisputed channel the reason is
  "Invalid nonce"); an accepted update leaves the channel with the update's nonce, which is
  strictly above the nonce the channel had.
\<close>

theorem updateChannel_nonce_strictly_increases:
  "(upd_nonce u \<le> nonce (channels s (channelId u)) \<longrightarrow>
      (\<exists>err. updateChannel e u s = Inl err)
      \<and> (isActive (channels s (channelId u)) \<and> \<not> inDispute s (channelId u)
           \<longrightarrow> updateChannel e u s = Inl InvalidNonce))
   \<and> (updateChannel e u s = Inr s' \<longrightarrow>
        nonce (channels s' (channelId u)) = upd_nonce u
        \<and> nonce (channels s (channelId u)) < nonce (channels s' (channelId u)))"
proof (intro conjI impI)
  assume stale: "upd_nonce u \<le> nonce (channels s (channelId u))"
  then have "\<And>s'. updateChannel e u s \<noteq> Inr s'"
    using updateChannel_Inr(3) by fastforce
  then show "\<exists>err. updateChannel e u s = Inl err"
    by (cases "updateChannel e u s") auto
  assume "isActive (channels s (channelId u)) \<and> \<not> inDispute s (channelId u)"
  with stale show "updateChannel e u s = Inl InvalidNonce"
    by (simp add: updateChannel_def Let_def not_less)
next
  assume ok: "updateChannel e u s = Inr s'"
  show "nonce (channels s' (channelId u)) = upd_nonce u"
    by (simp add: updateChannel_Inr(8) [OF ok])
  then show "nonce (channels s (channelId u)) < nonce (channels s' (channelId u))"
    using updateChannel_Inr(3) [OF ok] by simp
qed

theorem updateChannel_nonce_strictly_increases_witness:
  "updateChannel (ex_env 3 1500) ex_update ex_opened = Inr ex_updated
   \<and> nonce (channels ex_opened 7) = 0 \<and> nonce (channels ex_updated 7) = 1
   \<and> updateChannel (ex_env 3 1600) ex_update ex_updated = Inl InvalidNonce
   \<and> updateChannel (ex_env 3 1600) (ex_update\<lparr>signature1 := [], signature2 := [9]\<rparr>) ex_updated
       = Inl InvalidNonce"
proof -
  have stale: "upd_nonce ex_update \<le> nonce (channels ex_updated (channelId ex_update))"
    and stale': "upd_nonce (ex_update\<lparr>signature1 := [], signature2 := [9]\<rparr>)
       \<le> nonce (channels ex_updated (channelId (ex_update\<lparr>signature1 := [], signature2 := [9]\<rparr>)))"
    and live: "isActive (channels ex_updated 7) \<and> \<not> inDispute ex_updated 7"
    and id: "channelId ex_update = 7"
    and before: "nonce (channels ex_opened 7) = 0"
    and after: "nonce (channels ex_updated 7) = 1"
    by (simp_all add: ex_defs)
  from updateChannel_nonce_strictly_increases
         [of ex_update ex_opened "ex_env 3 1500" ex_updated]
       updateChannel_nonce_strictly_increases
         [of ex_update ex_updated "ex_env 3 1600"]
       updateChannel_nonce_strictly_increases
         [of "ex_update\<lparr>signature1 := [], signature2 := [9]\<rparr>" ex_updated "ex_env 3 1600"]
       ex_update_accepted stale stale' live id before after
  show ?thesis
    by simp
qed

subsection \<open>C4: both participants must have signed\<close>

text \<open>
  Claim C4. When the signature attributed to participant1 or the one attributed to
  participant2 does not verify against the hash of (channelId, nonce, balance1, balance2),
  \<^verbatim>\<open>updateChannel\<close> rejects the update, even if the other signature is valid. On an
  active, undisputed channel, with a larger nonce and the right balance sum, the reason is
  one of the two signature errors or the revert of the recovery itself. A rejected call
  leaves the channel as it was.
\<close>

theorem updateChannel_needs_both_signatures:
  assumes "isValidSignature_internal e (getStateUpdateHash e u) (signature1 u)
             (participant1 (channels s (channelId u))) \<noteq> Inr True
           \<or> isValidSignature_internal e (getStateUpdateHash e u) (signature2 u)
             (participant2 (channels s (channelId u))) \<noteq> Inr True"
  shows "(\<exists>err. updateChannel e u s = Inl err)
     \<and> (isActive (channels s (channelId u)) \<and> \<not> inDispute s (channelId u)
        \<and> nonce (channels s (channelId u)) < upd_nonce u
        \<and> unat (upd_balance1 u) + unat (upd_balance2 u)
            = unat (balance1 (channels s (channelId u))) + unat (balance2 (channels s (channelId u)))
        \<and> unat (upd_balance1 u) + unat (upd_balance2 u) < 2 ^ 256
        \<longrightarrow> (\<exists>err \<in> {InvalidSignature1, InvalidSignature2, ECDSAInvalidSignature}.
               updateChannel e u s = Inl err))"
proof (intro conjI impI)
  from assms have "\<And>s'. updateChannel e u s \<noteq> Inr s'"
    using updateChannel_Inr(6,7) by blast
  then show "\<exists>err. updateChannel e u s = Inl err"
    by (cases "updateChannel e u s") auto
next
  let ?ch = "channels s (channelId u)"
  assume pre: "isActive ?ch \<and> \<not> inDispute s (channelId u) \<and> nonce ?ch < upd_nonce u
        \<and> unat (upd_balance1 u) + unat (upd_balance2 u) = unat (balance1 ?ch) + unat (balance2 ?ch)
        \<and> unat (upd_balance1 u) + unat (upd_balance2 u) < 2 ^ 256"
  have new: "checked_add (upd_balance1 u) (upd_balance2 u) = Inr (upd_balance1 u + upd_balance2 u)"
    using pre by (simp add: checked_add_fits)
  have old: "checked_add (balance1 ?ch) (balance2 ?ch) = Inr (balance1 ?ch + balance2 ?ch)"
    using pre by (simp add: checked_add_fits)
  have same: "upd_balance1 u + upd_balance2 u = balance1 ?ch + balance2 ?ch"
    using pre checked_add_Inr [OF new] checked_add_Inr [OF old]
    by (simp add: word_unat_eq_iff)
  from assms pre new old same
  show "\<exists>err \<in> {InvalidSignature1, InvalidSignature2, ECDSAInvalidSignature}.
               updateChannel e u s = Inl err"
    by (auto simp: updateChannel_def Let_def isValidSignature_internal_def
             split: option.splits)
qed

theorem updateChannel_needs_both_signatures_witness:
  "isValidSignature_internal (ex_env 3 1500) (getStateUpdateHash (ex_env 3 1500) ex_update) [1] 1
     = Inr True
   \<and> updateChannel (ex_env 3 1500) (ex_update\<lparr>signature2 := [1]\<rparr>) ex_opened
       = Inl InvalidSignature2
   \<and> updateChannel (ex_env 3 1500) (ex_update\<lparr>signature1 := []\<rparr>) ex_opened
       = Inl ECDSAInvalidSignature"
proof -
  have bad2: "isValidSignature_internal (ex_env 3 1500)
        (getStateUpdateHash (ex_env 3 1500) (ex_update\<lparr>signature2 := [1]\<rparr>))
        (signature1 (ex_update\<lparr>signature2 := [1]\<rparr>))
        (participant1 (channels ex_opened (channelId (ex_update\<lparr>signature2 := [1]\<rparr>)))) \<noteq> Inr True
      \<or> isValidSignature_internal (ex_env 3 1500)
        (getStateUpdateHash (ex_env 3 1500) (ex_update\<lparr>signature2 := [1]\<rparr>))
        (signature2 (ex_update\<lparr>signature2 := [1]\<rparr>))
        (participant2 (channels ex_opened (channelId (ex_update\<lparr>signature2 := [1]\<rparr>)))) \<noteq> Inr True"
    by (simp add: isValidSignature_internal_def ex_defs)
  have good1: "isValidSignature_internal (ex_env 3 1500)
      (getStateUpdateHash (ex_env 3 1500) ex_update) [1] 1 = Inr True"
    by (simp add: isValidSignature_internal_def ex_defs)
  have r2: "updateChannel (ex_env 3 1500) (ex_update\<lparr>signature2 := [1]\<rparr>) ex_opened
       = Inl InvalidSignature2"
    and r1: "updateChannel (ex_env 3 1500) (ex_update\<lparr>signature1 := []\<rparr>) ex_opened
       = Inl ECDSAInvalidSignature"
    by (simp_all add: updateChannel_def ex_defs checked_add_def isValidSignature_internal_def)
  from updateChannel_needs_both_signatures [OF bad2] good1 r1 r2
  show ?thesis
    by simp
qed

subsection \<open>C5: the timeout split\<close>

text \<open>
  Claim C5 says that on every disputed channel whose deadline has passed a participant's
  call of \<^verbatim>\<open>withdrawTimelock\<close> pays the two halves of the recorded total. The payments
  are transfers out of the contract's balance, and they can fail: in the scenario Alice
  disputes, the administrator then calls \<^verbatim>\<open>withdrawFees\<close>, and after the deadline Bob's
  \<^verbatim>\<open>withdrawTimelock\<close> reverts in its first transfer, with nobody paid and the channel
  still active and disputed.
\<close>

theorem withdrawTimelock_unfunded_counterexample:
  "withdrawFees (ex_env 9 3000) ex_disputed = Inr ex_disputed_swept
   \<and> onlyParticipant (ex_env 2 90000) ex_disputed_swept 7
   \<and> inDispute ex_disputed_swept 7
   \<and> disputeTimeouts ex_disputed_swept 7 < block_timestamp (ex_env 2 90000)
   \<and> withdrawTimelock (ex_env 2 90000) 7 ex_disputed_swept = Inl TransferFailed"
  by (simp add: withdrawFees_def withdrawTimelock_def nonReentrant_def transfer_def
      checked_add_def onlyParticipant_def ex_defs Let_def fun_eq_iff)

text \<open>
  Claim C5 as amended. On a disputed channel whose deadline has passed, with \<open>T\<close> the
  sum of the two recorded balances, the call of a participant succeeds when the contract
  holds at least \<open>T\<close> and both participants accept the payment, and reverts in a transfer
  otherwise; every successful call pays participant1 exactly \<open>T div 2\<close> and participant2
  exactly \<open>T - T div 2\<close>, takes \<open>T\<close> from the contract, deactivates the channel and
  clears the dispute flag. Up to and including the deadline the call reverts. The payments
  are read off the ether balances, for participants that are two accounts other than the
  contract.
\<close>

theorem withdrawTimelock_splits_total:
  "(block_timestamp e \<le> disputeTimeouts s cid \<longrightarrow> (\<exists>err. withdrawTimelock e cid s = Inl err))
   \<and> (withdrawTimelock e cid s = Inr s'
        \<and> T = unat (balance1 (channels s cid)) + unat (balance2 (channels s cid))
        \<and> p1 = participant1 (channels s cid) \<and> p2 = participant2 (channels s cid)
        \<and> p1 \<noteq> p2 \<and> p1 \<noteq> self s \<and> p2 \<noteq> self s \<longrightarrow>
          inDispute s cid \<and> disputeTimeouts s cid < block_timestamp e
          \<and> ether s' p1 = ether s p1 + T div 2
          \<and> ether s' p2 = ether s p2 + (T - T div 2)
          \<and> ether s' (self s) + T = ether s (self s)
          \<and> \<not> isActive (channels s' cid) \<and> \<not> inDispute s' cid)
   \<and> (onlyParticipant e s cid \<and> \<not> entered s \<and> inDispute s cid
        \<and> disputeTimeouts s cid < block_timestamp e
        \<and> T = unat (balance1 (channels s cid)) + unat (balance2 (channels s cid))
        \<and> T < 2 ^ 256 \<and> T \<le> ether s (self s)
        \<and> accepts e (participant1 (channels s cid)) \<and> accepts e (participant2 (channels s cid))
        \<longrightarrow> (\<exists>s''. withdrawTimelock e cid s = Inr s''))
   \<and> (onlyParticipant e s cid \<and> \<not> entered s \<and> inDispute s cid
        \<and> disputeTimeouts s cid < block_timestamp e
        \<and> T = unat (balance1 (channels s cid)) + unat (balance2 (channels s cid))
        \<and> T < 2 ^ 256 \<and> participant1 (channels s cid) \<noteq> self s
        \<and> \<not> (T \<le> ether s (self s) \<and> accepts e (participant1 (channels s cid))
               \<and> accepts e (participant2 (channels s cid)))
        \<longrightarrow> withdrawTimelock e cid s = Inl TransferFailed)"
proof (intro conjI impI)
  assume "onlyParticipant e s cid \<and> \<not> entered s \<and> inDispute s cid
        \<and> disputeTimeouts s cid < block_timestamp e
        \<and> T = unat (balance1 (channels s cid)) + unat (balance2 (channels s cid))
        \<and> T < 2 ^ 256 \<and> participant1 (channels s cid) \<noteq> self s
        \<and> \<not> (T \<le> ether s (self s) \<and> accepts e (participant1 (channels s cid))
               \<and> accepts e (participant2 (channels s cid)))"
  then show "withdrawTimelock e cid s = Inl TransferFailed"
    by (intro withdrawTimelock_unfunded [where T = T]) simp_all
next
  assume "block_timestamp e \<le> disputeTimeouts s cid"
  then show "\<exists>err. withdrawTimelock e cid s = Inl err"
    by (simp add: withdrawTimelock_def nonReentrant_def not_less)
next
  assume pre: "onlyParticipant e s cid \<and> \<not> entered s \<and> inDispute s cid
        \<and> disputeTimeouts s cid < block_timestamp e
        \<and> T = unat (balance1 (channels s cid)) + unat (balance2 (channels s cid))
        \<and> T < 2 ^ 256 \<and> T \<le> ether s (self s)
        \<and> accepts e (participant1 (channels s cid)) \<and> accepts e (participant2 (channels s cid))"
  let ?b1 = "balance1 (channels s cid)" and ?b2 = "balance2 (channels s cid)"
  have tot: "checked_add ?b1 ?b2 = Inr (?b1 + ?b2)" and ut: "unat (?b1 + ?b2) = T"
    using pre by (simp_all add: checked_add_fits unat_add_lem [THEN iffD1])
  show "\<exists>s''. withdrawTimelock e cid s = Inr s''"
    using pre tot ut
    by (auto simp: withdrawTimelock_def nonReentrant_def Let_def transfer_def unat_half unat_rest)
next
  assume ok: "withdrawTimelock e cid s = Inr s'
        \<and> T = unat (balance1 (channels s cid)) + unat (balance2 (channels s cid))
        \<and> p1 = participant1 (channels s cid) \<and> p2 = participant2 (channels s cid)
        \<and> p1 \<noteq> p2 \<and> p1 \<noteq> self s \<and> p2 \<noteq> self s"
  let ?b1 = "balance1 (channels s cid)" and ?b2 = "balance2 (channels s cid)"
  from ok show "inDispute s cid" and "disputeTimeouts s cid < block_timestamp e"
    by (auto simp: withdrawTimelock_def nonReentrant_Inr split: if_splits)
  from ok obtain tb where tb: "checked_add ?b1 ?b2 = Inr tb"
    by (auto simp: withdrawTimelock_def nonReentrant_Inr Let_def split: if_splits sum.splits)
  then have ut: "unat tb = T"
    using ok checked_add_Inr by simp
  from ok tb ut
  show "ether s' p1 = ether s p1 + T div 2"
    and "ether s' p2 = ether s p2 + (T - T div 2)"
    and "ether s' (self s) + T = ether s (self s)"
    and "\<not> isActive (channels s' cid)" and "\<not> inDispute s' cid"
    by (auto simp: withdrawTimelock_def nonReentrant_Inr Let_def transfer_Inr unat_half unat_rest
             split: if_splits sum.splits)
qed

theorem withdrawTimelock_splits_total_witness:
  "withdrawTimelock (ex_env 2 90000) 7 ex_odd_disputed = Inr ex_odd_split
   \<and> ether ex_odd_split 1 = ether ex_odd_disputed 1 + 3
   \<and> ether ex_odd_split 2 = ether ex_odd_disputed 2 + 4
   \<and> ether ex_odd_split 100 + 7 = ether ex_odd_disputed 100
   \<and> \<not> isActive (channels ex_odd_split 7) \<and> \<not> inDispute ex_odd_split 7
   \<and> withdrawTimelock (ex_env 2 87400) 7 ex_odd_disputed = Inl DisputePeriodNotEnded
   \<and> withdrawTimelock (ex_env 2 90000) 7 ex_disputed_swept = Inl TransferFailed"
proof -
  have unfunded: "onlyParticipant (ex_env 2 90000) ex_disputed_swept 7
    \<and> \<not> entered ex_disputed_swept \<and> inDispute ex_disputed_swept 7
    \<and> disputeTimeouts ex_disputed_swept 7 < block_timestamp (ex_env 2 90000)
    \<and> (2000000000000000000::nat) = unat (balance1 (channels ex_disputed_swept 7))
          + unat (balance2 (channels ex_disputed_swept 7))
    \<and> (2000000000000000000::nat) < 2 ^ 256
    \<and> participant1 (channels ex_disputed_swept 7) \<noteq> self ex_disputed_swept
    \<and> \<not> ((2000000000000000000::nat) \<le> ether ex_disputed_swept (self ex_disputed_swept)
           \<and> accepts (ex_env 2 90000) (participant1 (channels ex_disputed_swept 7))
           \<and> accepts (ex_env 2 90000) (participant2 (channels ex_disputed_swept 7)))"
    by (simp add: onlyParticipant_def ex_defs)
  have early: "block_timestamp (ex_env 2 87400) \<le> disputeTimeouts ex_odd_disputed 7"
    by (simp add: ex_defs)
  have paid: "withdrawTimelock (ex_env 2 90000) 7 ex_odd_disputed = Inr ex_odd_split
    \<and> (7::nat) = unat (balance1 (channels ex_odd_disputed 7)) + unat (balance2 (channels ex_odd_disputed 7))
    \<and> (1::address) = participant1 (channels ex_odd_disputed 7)
    \<and> (2::address) = participant2 (channels ex_odd_disputed 7)
    \<and> (1::address) \<noteq> 2 \<and> 1 \<noteq> self ex_odd_disputed \<and> 2 \<noteq> self ex_odd_disputed"
    by (simp add: ex_timeout_split) (simp add: ex_defs)
  have funded: "onlyParticipant (ex_env 2 90000) ex_odd_disputed 7 \<and> \<not> entered ex_odd_disputed
    \<and> inDispute ex_odd_disputed 7
    \<and> disputeTimeouts ex_odd_disputed 7 < block_timestamp (ex_env 2 90000)
    \<and> (7::nat) = unat (balance1 (channels ex_odd_disputed 7)) + unat (balance2 (channels ex_odd_disputed 7))
    \<and> (7::nat) < 2 ^ 256 \<and> 7 \<le> ether ex_odd_disputed (self ex_odd_disputed)
    \<and> accepts (ex_env 2 90000) (participant1 (channels ex_odd_disputed 7))
    \<and> accepts (ex_env 2 90000) (participant2 (channels ex_odd_disputed 7))"
    by (simp add: onlyParticipant_def ex_defs)
  have self: "self ex_odd_disputed = 100"
    by (simp add: ex_defs)
  have late: "withdrawTimelock (ex_env 2 87400) 7 ex_odd_disputed = Inl DisputePeriodNotEnded"
    by (simp add: withdrawTimelock_def nonReentrant_def onlyParticipant_def ex_defs)
  from withdrawTimelock_splits_total
         [of "ex_env 2 87400" ex_odd_disputed 7 ex_odd_split 7 1 2]
       withdrawTimelock_splits_total
         [of "ex_env 2 90000" ex_odd_disputed 7 ex_odd_split 7 1 2]
       withdrawTimelock_splits_total
         [of "ex_env 2 90000" ex_disputed_swept 7 _ 2000000000000000000]
       early paid funded self late unfunded
  show ?thesis
    by simp
qed

subsection \<open>C6: terminating calls on an inactive channel\<close>

text \<open>
  Claim C6 says that on an inactive channel both \<^verbatim>\<open>closeChannel\<close> and \<^verbatim>\<open>withdrawTimelock\<close>
  fail with "Channel not active". \<^verbatim>\<open>withdrawTimelock\<close> has no \<^verbatim>\<open>onlyActive\<close> modifier: on
  the closed channel of the scenario Alice's call fails with "No active dispute".
\<close>

theorem withdrawTimelock_inactive_counterexample:
  "\<not> isActive (channels ex_closed 7)
   \<and> withdrawTimelock (ex_env 1 4000) 7 ex_closed = Inl NoActiveDispute
   \<and> withdrawTimelock (ex_env 1 4000) 7 ex_closed \<noteq> Inl ChannelInactive"
  by (simp add: withdrawTimelock_def nonReentrant_def onlyParticipant_def ex_defs)

text \<open>
  Claim C6 as amended. In every state reachable from the deployment, on an inactive
  channel, \<^verbatim>\<open>closeChannel\<close> called by a participant fails with "Channel not active" and
  \<^verbatim>\<open>withdrawTimelock\<close> called by a participant fails with "No active dispute" (an inactive
  channel is never in dispute); called by anyone else, both fail with "Not a channel
  participant". A failed call transfers nothing and changes nothing.
\<close>

theorem inactive_channel_calls_revert:
  assumes "reachable s" and "\<not> isActive (channels s cid)"
  shows "closeChannel e cid u s
           = Inl (if onlyParticipant e s cid then ChannelInactive else NotParticipant)
       \<and> withdrawTimelock e cid s
           = Inl (if onlyParticipant e s cid then NoActiveDispute else NotParticipant)"
proof -
  from reachable_invariant [OF assms(1)] assms(2)
  have "\<not> entered s" and "\<not> inDispute s cid"
    by auto
  with assms(2) show ?thesis
    by (simp add: closeChannel_def withdrawTimelock_def nonReentrant_def)
qed

theorem inactive_channel_calls_revert_witness:
  "reachable ex_closed \<and> \<not> isActive (channels ex_closed 7)
   \<and> closeChannel (ex_env 1 4000) 7 ex_no_update ex_closed = Inl ChannelInactive
   \<and> withdrawTimelock (ex_env 1 4000) 7 ex_closed = Inl NoActiveDispute
   \<and> closeChannel (ex_env 3 4000) 7 ex_no_update ex_closed = Inl NotParticipant
   \<and> withdrawTimelock (ex_env 3 4000) 7 ex_closed = Inl NotParticipant"
proof -
  have inactive: "\<not> isActive (channels ex_closed 7)"
    and alice: "onlyParticipant (ex_env 1 4000) ex_closed 7"
    and relayer: "\<not> onlyParticipant (ex_env 3 4000) ex_closed 7"
    by (simp_all add: onlyParticipant_def ex_defs)
  from inactive_channel_calls_revert
         [OF reachable_ex_closed inactive, of "ex_env 1 4000" ex_no_update]
       inactive_channel_calls_revert
         [OF reachable_ex_closed inactive, of "ex_env 3 4000" ex_no_update]
       reachable_ex_closed inactive alice relayer
  show ?thesis
    by simp
qed

subsection \<open>C7: what withdrawFees takes\<close>

text \<open>
  Claim C7 says that \<^verbatim>\<open>withdrawFees\<close> takes the accumulated fees and nothing more, so
  that the balances of the active channels stay payable. The code transfers the whole
  balance of the contract. In the scenario the contract holds Alice's and Bob's deposits
  of one ether each and the channel fee of 0.001 ether; the administrator's call takes
  2.001 ether and leaves nothing, and Alice's \<^verbatim>\<open>closeChannel\<close> on the still active channel
  then fails in its first transfer.
\<close>

theorem withdrawFees_sweeps_channel_deposits:
  "withdrawFees (ex_env 9 3000) ex_opened = Inr ex_swept
   \<and> unat (channelFee ex_opened) = 1000000000000000
   \<and> ether ex_swept 9 = ether ex_opened 9 + 2001000000000000000
   \<and> ether ex_swept 100 = 0
   \<and> isActive (channels ex_swept 7)
   \<and> unat (balance1 (channels ex_swept 7)) + unat (balance2 (channels ex_swept 7))
       = 2000000000000000000
   \<and> closeChannel (ex_env 1 4000) 7 ex_no_update ex_swept = Inl TransferFailed"
  by (simp add: withdrawFees_def closeChannel_def payFinalBalances_def transfer_def
      nonReentrant_def onlyParticipant_def ex_defs fun_eq_iff)

subsection \<open>C8: relayed updates\<close>

text \<open>
  Claim C8 says that \<^verbatim>\<open>relayTransaction\<close> succeeds exactly when the relayer is
  authorised, its signature verifies and the update passes the validation of
  \<^verbatim>\<open>updateChannel\<close>. The call ends with the transfer of the relayer fee, which can fail:
  after the administrator has withdrawn the contract's balance, all three conditions hold
  and the call reverts.
\<close>

theorem relayTransaction_unfunded_counterexample:
  "authorizedRelayers ex_swept 3
   \<and> isValidSignature_internal (ex_env 3 3500) (relayHash (ex_env 3 3500) ex_update 3) [3] 3
       = Inr True
   \<and> updateChannel (ex_env 3 3500) ex_update ex_swept
       = Inr (ex_swept\<lparr>channels := channels ex_updated\<rparr>)
   \<and> relayTransaction (ex_env 3 3500) ex_update 3 [3] ex_swept = Inl TransferFailed"
  by (simp add: relayTransaction_def updateChannel_def transfer_def checked_add_def
      isValidSignature_internal_def ex_defs Let_def fun_eq_iff)

text \<open>
  Claim C8 as amended. \<^verbatim>\<open>relayTransaction\<close> succeeds exactly when the relayer is
  authorised, the relayer's signature verifies over (channelId, nonce, relayer), the
  update passes the validation of \<^verbatim>\<open>updateChannel\<close>, and the fee can be paid: the contract
  holds at least \<^verbatim>\<open>relayerFee\<close> and the relayer accepts the transfer. On success the update
  is applied and the relayer has received \<^verbatim>\<open>relayerFee\<close> from the contract. An
  unauthorised relayer is rejected with "Unauthorized relayer", and nothing changes.
\<close>

theorem relayTransaction_succeeds_iff:
  "((\<exists>s'. relayTransaction e u r sg s = Inr s') \<longleftrightarrow>
      authorizedRelayers s r
      \<and> isValidSignature_internal e (relayHash e u r) sg r = Inr True
      \<and> (\<exists>s1. updateChannel e u s = Inr s1)
      \<and> unat (relayerFee s) \<le> ether s (self s) \<and> accepts e r)
   \<and> (relayTransaction e u r sg s = Inr s' \<longrightarrow>
        (\<exists>s1. updateChannel e u s = Inr s1 \<and> channels s' = channels s1)
        \<and> (r \<noteq> self s \<longrightarrow> ether s' r = ether s r + unat (relayerFee s)
                           \<and> ether s' (self s) + unat (relayerFee s) = ether s (self s)))
   \<and> (\<not> authorizedRelayers s r \<longrightarrow> relayTransaction e u r sg s = Inl UnauthorizedRelayer)"
proof -
  have forward: "authorizedRelayers s r
      \<and> isValidSignature_internal e (relayHash e u r) sg r = Inr True
      \<and> (\<exists>s1. updateChannel e u s = Inr s1)
      \<and> unat (relayerFee s) \<le> ether s (self s) \<and> accepts e r"
    if "\<exists>s'. relayTransaction e u r sg s = Inr s'"
  proof -
    from that obtain s' where ok: "relayTransaction e u r sg s = Inr s'" ..
    then obtain s1 where auth: "authorizedRelayers s r"
      and sig: "isValidSignature_internal e (relayHash e u r) sg r = Inr True"
      and upd: "updateChannel e u s = Inr s1"
      and pay: "transfer e r (unat (relayerFee s1)) s1 = Inr s'"
      by (auto simp: relayTransaction_def split: if_splits sum.splits)
    from pay updateChannel_frame [OF upd]
    have "unat (relayerFee s) \<le> ether s (self s) \<and> accepts e r"
      by (simp add: transfer_Inr)
    with auth sig upd show ?thesis
      by blast
  qed
  have backward: "\<exists>s'. relayTransaction e u r sg s = Inr s'"
    if pre: "authorizedRelayers s r
      \<and> isValidSignature_internal e (relayHash e u r) sg r = Inr True
      \<and> (\<exists>s1. updateChannel e u s = Inr s1)
      \<and> unat (relayerFee s) \<le> ether s (self s) \<and> accepts e r"
  proof -
    from pre obtain s1 where upd: "updateChannel e u s = Inr s1"
      by blast
    from pre updateChannel_frame [OF upd]
    have "\<exists>s'. transfer e r (unat (relayerFee s1)) s1 = Inr s'"
      by (simp add: transfer_Inr)
    with pre upd show ?thesis
      by (auto simp: relayTransaction_def)
  qed
  have effect: "(\<exists>s1. updateChannel e u s = Inr s1 \<and> channels s' = channels s1)
        \<and> (r \<noteq> self s \<longrightarrow> ether s' r = ether s r + unat (relayerFee s)
                           \<and> ether s' (self s) + unat (relayerFee s) = ether s (self s))"
    if ok: "relayTransaction e u r sg s = Inr s'"
  proof -
    from ok obtain s1 where upd: "updateChannel e u s = Inr s1"
      and pay: "transfer e r (unat (relayerFee s1)) s1 = Inr s'"
      by (auto simp: relayTransaction_def split: if_splits sum.splits)
    from upd transfer_frame(1) [OF pay]
    have "\<exists>s1. updateChannel e u s = Inr s1 \<and> channels s' = channels s1"
      by blast
    moreover from pay updateChannel_frame [OF upd]
    have "r \<noteq> self s \<longrightarrow> ether s' r = ether s r + unat (relayerFee s)
                           \<and> ether s' (self s) + unat (relayerFee s) = ether s (self s)"
      by (auto simp: transfer_Inr)
    ultimately show ?thesis ..
  qed
  have refused: "relayTransaction e u r sg s = Inl UnauthorizedRelayer"
    if "\<not> authorizedRelayers s r"
    using that by (simp add: relayTransaction_def)
  from forward backward effect refused show ?thesis
    by blast
qed

theorem relayTransaction_succeeds_iff_witness:
  "relayTransaction (ex_env 3 1500) ex_update 3 [3] ex_opened = Inr ex_relayed
   \<and> channels ex_relayed 7 = channels ex_updated 7
   \<and> ether ex_relayed 3 = ether ex_opened 3 + 100000000000000
   \<and> ether ex_relayed 100 + 100000000000000 = ether ex_opened 100
   \<and> relayTransaction (ex_env 4 1500) ex_update 4 [4] ex_opened = Inl UnauthorizedRelayer"
proof -
  have stranger: "\<not> authorizedRelayers ex_opened 4"
    and relayer: "(3::address) \<noteq> self ex_opened" "self ex_opened = 100"
    and fee: "unat (relayerFee ex_opened) = 100000000000000"
    and same: "channels ex_relayed 7 = channels ex_updated 7"
    by (simp_all add: ex_defs)
  from relayTransaction_succeeds_iff
         [of "ex_env 3 1500" ex_update 3 "[3]" ex_opened ex_relayed]
       relayTransaction_succeeds_iff
         [of "ex_env 4 1500" ex_update 4 "[4]" ex_opened]
       ex_relay stranger relayer fee same
  show ?thesis
    by simp
qed

subsection \<open>C9: a closed channel keeps its recorded balances\<close>

text \<open>
  Claim C9 says that every normally closed channel with a non-zero final balance is paid
  a second time by a later \<^verbatim>\<open>emergencyWithdraw\<close> of the administrator. The second payment
  comes out of what the contract still holds: after the plain open and close of the
  scenario the contract holds the channel fee only, and the administrator's call reverts
  in its first transfer.
\<close>

theorem emergencyWithdraw_unfunded_counterexample:
  "closeChannel (ex_env 1 3000) 7 ex_no_update ex_opened = Inr ex_closed
   \<and> \<not> isActive (channels ex_closed 7)
   \<and> balance1 (channels ex_closed 7) = 1000000000000000000
   \<and> balance2 (channels ex_closed 7) = 1000000000000000000
   \<and> msg_sender (ex_env 9 4000) = owner ex_closed
   \<and> emergencyWithdraw (ex_env 9 4000) 7 ex_closed = Inl TransferFailed"
  by (simp add: closeChannel_def payFinalBalances_def emergencyWithdraw_def transfer_def
      nonReentrant_def checked_add_def onlyParticipant_def ex_defs Let_def fun_eq_iff)

text \<open>
  Claim C9 as amended. A successful \<^verbatim>\<open>closeChannel\<close> clears \<^verbatim>\<open>isActive\<close> and leaves in the
  record the balances it has just paid to the two participants. If they are not both zero,
  the channel meets the condition of \<^verbatim>\<open>emergencyWithdraw\<close>, and a call of the
  administrator pays the same amounts to the same participants again, and only then sets
  the recorded balances to zero, when the contract still holds at least their sum and both
  participants accept the payment; otherwise the call reverts in a transfer. The payments
  are read off the ether balances, for participants that are two accounts other than the
  contract.
\<close>

theorem closeChannel_leaves_balances_for_emergencyWithdraw:
  assumes closed: "closeChannel e cid u s = Inr s'"
    and p1: "p1 = participant1 (channels s cid)" and p2: "p2 = participant2 (channels s cid)"
    and B1: "B1 = unat (balance1 (channels s' cid))"
    and B2: "B2 = unat (balance2 (channels s' cid))"
    and apart: "p1 \<noteq> p2" "p1 \<noteq> self s" "p2 \<noteq> self s"
  shows "\<not> isActive (channels s' cid)
     \<and> participant1 (channels s' cid) = p1 \<and> participant2 (channels s' cid) = p2
     \<and> ether s' p1 = ether s p1 + B1 \<and> ether s' p2 = ether s p2 + B2
     \<and> (msg_sender e' = owner s' \<and> 0 < B1 + B2 \<and> B1 + B2 < 2 ^ 256
          \<and> B1 + B2 \<le> ether s' (self s) \<and> accepts e' p1 \<and> accepts e' p2 \<longrightarrow>
         (\<exists>s''. emergencyWithdraw e' cid s' = Inr s''
            \<and> ether s'' p1 = ether s' p1 + B1 \<and> ether s'' p2 = ether s' p2 + B2
            \<and> ether s'' (self s) + (B1 + B2) = ether s' (self s)
            \<and> balance1 (channels s'' cid) = 0 \<and> balance2 (channels s'' cid) = 0))
     \<and> (msg_sender e' = owner s' \<and> 0 < B1 + B2 \<and> B1 + B2 < 2 ^ 256
          \<and> \<not> (B1 + B2 \<le> ether s' (self s) \<and> accepts e' p1 \<and> accepts e' p2) \<longrightarrow>
         emergencyWithdraw e' cid s' = Inl TransferFailed)"
proof -
  from closed [unfolded closeChannel_Inr] obtain s1 s2
    where upd: "(if 0 < upd_nonce u then updateChannel e u (s\<lparr>entered := True\<rparr>)
                 else Inr (s\<lparr>entered := True\<rparr>)) = Inr s1"
    and pay: "payFinalBalances e cid
        (s1\<lparr>channels := (channels s1)(cid := (channels s1 cid)\<lparr>isActive := False\<rparr>)\<rparr>) = Inr s2"
    and s': "s' = s2\<lparr>entered := False\<rparr>"
    by blast
  let ?s1 = "s1\<lparr>channels := (channels s1)(cid := (channels s1 cid)\<lparr>isActive := False\<rparr>)\<rparr>"
  from upd have same: "participant1 (channels s1 cid) = p1" "participant2 (channels s1 cid) = p2"
    "ether s1 = ether s" "self s1 = self s"
    by (auto simp: p1 p2 updateChannel_frame split: if_splits)
  from payFinalBalances_frame [OF pay] s'
  have rec: "channels s' = channels ?s1" and home: "self s' = self s"
    by (simp_all add: same)
  from rec have shape: "\<not> isActive (channels s' cid)"
    "participant1 (channels s' cid) = p1" "participant2 (channels s' cid) = p2"
    by (simp_all add: same)
  from payFinalBalances_pays [OF pay] apart same s' rec
  have paid: "ether s' p1 = ether s p1 + B1" "ether s' p2 = ether s p2 + B2"
    by (simp_all add: B1 B2)
  have again: "\<exists>s''. emergencyWithdraw e' cid s' = Inr s''
            \<and> ether s'' p1 = ether s' p1 + B1 \<and> ether s'' p2 = ether s' p2 + B2
            \<and> ether s'' (self s) + (B1 + B2) = ether s' (self s)
            \<and> balance1 (channels s'' cid) = 0 \<and> balance2 (channels s'' cid) = 0"
    if "msg_sender e' = owner s' \<and> 0 < B1 + B2 \<and> B1 + B2 < 2 ^ 256
          \<and> B1 + B2 \<le> ether s' (self s) \<and> accepts e' p1 \<and> accepts e' p2"
    using emergencyWithdraw_pays [of e' s' cid B1 B2] that shape apart home B1 B2
    by simp
  have refused: "emergencyWithdraw e' cid s' = Inl TransferFailed"
    if "msg_sender e' = owner s' \<and> 0 < B1 + B2 \<and> B1 + B2 < 2 ^ 256
          \<and> \<not> (B1 + B2 \<le> ether s' (self s) \<and> accepts e' p1 \<and> accepts e' p2)"
    using emergencyWithdraw_unfunded [of e' s' cid B1 B2] that shape apart home B1 B2
    by simp
  from shape paid again refused show ?thesis
    by blast
qed

theorem closeChannel_leaves_balances_for_emergencyWithdraw_witness:
  "closeChannel (ex_env 1 3000) 7 ex_no_update ex_two_opened = Inr ex_two_closed
   \<and> \<not> isActive (channels ex_two_closed 7)
   \<and> balance1 (channels ex_two_closed 7) = 1000000000000000000
   \<and> balance2 (channels ex_two_closed 7) = 1000000000000000000
   \<and> ether ex_two_closed 1 = ether ex_two_opened 1 + 1000000000000000000
   \<and> ether ex_two_closed 2 = ether ex_two_opened 2 + 1000000000000000000
   \<and> emergencyWithdraw (ex_env 9 4000) 7 ex_two_closed = Inr ex_two_drained
   \<and> ether ex_two_drained 1 = ether ex_two_closed 1 + 1000000000000000000
   \<and> ether ex_two_drained 2 = ether ex_two_closed 2 + 1000000000000000000
   \<and> ether ex_two_drained 100 = 2000000000000000
   \<and> unat (balance1 (channels ex_two_drained 8)) + unat (balance2 (channels ex_two_drained 8))
       = 2000000000000000000
   \<and> closeChannel (ex_env 1 3000) 7 ex_no_update ex_opened = Inr ex_closed
   \<and> emergencyWithdraw (ex_env 9 4000) 7 ex_closed = Inl TransferFailed"
proof -
  have q1: "(1::address) = participant1 (channels ex_opened 7)"
    and q2: "(2::address) = participant2 (channels ex_opened 7)"
    and C1: "(1000000000000000000::nat) = unat (balance1 (channels ex_closed 7))"
    and C2: "(1000000000000000000::nat) = unat (balance2 (channels ex_closed 7))"
    and alone: "(1::address) \<noteq> 2" "(1::address) \<noteq> self ex_opened"
      "(2::address) \<noteq> self ex_opened"
    by (simp_all add: ex_defs)
  have short: "msg_sender (ex_env 9 4000) = owner ex_closed
      \<and> (0::nat) < 1000000000000000000 + 1000000000000000000
      \<and> (1000000000000000000::nat) + 1000000000000000000 < 2 ^ 256
      \<and> \<not> ((1000000000000000000::nat) + 1000000000000000000
             \<le> ether ex_closed (self ex_opened)
           \<and> accepts (ex_env 9 4000) 1 \<and> accepts (ex_env 9 4000) 2)"
    by (simp add: ex_defs)
  have p1: "(1::address) = participant1 (channels ex_two_opened 7)"
    and p2: "(2::address) = participant2 (channels ex_two_opened 7)"
    and B1: "(1000000000000000000::nat) = unat (balance1 (channels ex_two_closed 7))"
    and B2: "(1000000000000000000::nat) = unat (balance2 (channels ex_two_closed 7))"
    and apart: "(1::address) \<noteq> 2" "(1::address) \<noteq> self ex_two_opened"
      "(2::address) \<noteq> self ex_two_opened"
    by (simp_all add: ex_defs)
  have admin: "msg_sender (ex_env 9 4000) = owner ex_two_closed
      \<and> (0::nat) < 1000000000000000000 + 1000000000000000000
      \<and> (1000000000000000000::nat) + 1000000000000000000 < 2 ^ 256
      \<and> (1000000000000000000::nat) + 1000000000000000000
           \<le> ether ex_two_closed (self ex_two_opened)
      \<and> accepts (ex_env 9 4000) 1 \<and> accepts (ex_env 9 4000) 2"
    by (simp add: ex_defs)
  have rest: "ether ex_two_drained 100 = 2000000000000000"
    "unat (balance1 (channels ex_two_drained 8)) + unat (balance2 (channels ex_two_drained 8))
       = 2000000000000000000"
    "balance1 (channels ex_two_closed 7) = 1000000000000000000"
    "balance2 (channels ex_two_closed 7) = 1000000000000000000"
    by (simp_all add: ex_defs)
  from closeChannel_leaves_balances_for_emergencyWithdraw
         [OF ex_close_first p1 p2 B1 B2 apart, of "ex_env 9 4000"]
       closeChannel_leaves_balances_for_emergencyWithdraw
         [OF ex_close q1 q2 C1 C2 alone, of "ex_env 9 4000"]
       admin short ex_close_first ex_close ex_drain rest
  show ?thesis
    by simp
qed

subsection \<open>C10: two channels opened for one pair in one block\<close>

text \<open>
  Claim C10. The channel id is the hash of (participant1, participant2, block.timestamp,
  block.number) and \<^verbatim>\<open>openChannel\<close> writes the record under it whatever is there. Two
  successful calls for the same pair in the same block therefore get the same id; the
  record of the second call replaces the record of the first, while the contract has
  received the value of both calls.
\<close>

theorem openChannel_same_block_overwrites:
  assumes first: "openChannel e v p1 p2 a1 a2 tmo s = Inr (s1, cid1)"
    and second: "openChannel e' v' p1 p2 a1' a2' tmo' s1 = Inr (s2, cid2)"
    and block: "block_timestamp e' = block_timestamp e" "block_number e' = block_number e"
    and hash: "keccak256 e' = keccak256 e"
  shows "cid1 = keccak256 e (encode_address p1 @ encode_address p2
                             @ encode_bytes32 (block_timestamp e)
                             @ encode_bytes32 (block_number e))
    \<and> cid2 = cid1
    \<and> channels s1 cid1 = \<lparr>participant1 = p1, participant2 = p2, balance1 = a1, balance2 = a2,
                           nonce = 0, timeout = tmo, isActive = True\<rparr>
    \<and> channels s2 cid1 = \<lparr>participant1 = p1, participant2 = p2, balance1 = a1', balance2 = a2',
                           nonce = 0, timeout = tmo', isActive = True\<rparr>
    \<and> (msg_sender e \<noteq> self s \<and> msg_sender e' \<noteq> self s \<longrightarrow>
          ether s2 (self s) = ether s (self s) + unat v + unat v')"
proof -
  let ?cid = "keccak256 e (encode_address p1 @ encode_address p2
                           @ encode_bytes32 (block_timestamp e)
                           @ encode_bytes32 (block_number e))"
  from first have one: "cid1 = ?cid"
    "channels s1 = (channels s)(?cid := \<lparr>participant1 = p1, participant2 = p2, balance1 = a1,
        balance2 = a2, nonce = 0, timeout = tmo, isActive = True\<rparr>)"
    "self s1 = self s"
    "msg_sender e \<noteq> self s \<longrightarrow> ether s1 (self s) = ether s (self s) + unat v"
    by (auto simp: openChannel_def Let_def split: if_splits sum.splits)
  from second block hash have two: "cid2 = ?cid"
    "channels s2 = (channels s1)(?cid := \<lparr>participant1 = p1, participant2 = p2, balance1 = a1',
        balance2 = a2', nonce = 0, timeout = tmo', isActive = True\<rparr>)"
    "msg_sender e' \<noteq> self s1 \<longrightarrow> ether s2 (self s1) = ether s1 (self s1) + unat v'"
    by (auto simp: openChannel_def Let_def split: if_splits sum.splits)
  from one two show ?thesis
    by simp
qed

theorem openChannel_same_block_overwrites_witness:
  "openChannel (ex_env 1 1000) 2001000000000000000 1 2 1000000000000000000
     1000000000000000000 7200 ex_ready = Inr (ex_opened, 7)
   \<and> openChannel (ex_env 2 1000) 1001000000000000000 1 2 500000000000000000
       500000000000000000 3600 ex_opened = Inr (ex_reopened, 7)
   \<and> balance1 (channels ex_opened 7) = 1000000000000000000
   \<and> balance1 (channels ex_reopened 7) = 500000000000000000
   \<and> balance2 (channels ex_reopened 7) = 500000000000000000
   \<and> ether ex_reopened 100 = ether ex_ready 100 + 2001000000000000000 + 1001000000000000000"
proof -
  have block: "block_timestamp (ex_env 2 1000) = block_timestamp (ex_env 1 1000)"
    "block_number (ex_env 2 1000) = block_number (ex_env 1 1000)"
    and hash: "keccak256 (ex_env 2 1000) = keccak256 (ex_env 1 1000)"
    and senders: "msg_sender (ex_env 1 1000) \<noteq> self ex_ready"
      "msg_sender (ex_env 2 1000) \<noteq> self ex_ready"
    and home: "self ex_ready = 100"
    by (simp_all add: ex_defs)
  from openChannel_same_block_overwrites [OF ex_open ex_reopen block hash]
       ex_open ex_reopen senders home
  show ?thesis
    by simp
qed

end
